theory Spec2Isabelle
  imports Main "HOL-Library.Char_ord" "HOL-Library.List_Lexorder" "HOL-Library.Multiset"
begin

section \<open>TOON codec (toon-go): a shallow embedding\<close>

text \<open>
  Go strings are byte sequences and are modelled as \<open>string\<close> (a list of 8-bit
  characters). The loops of the source that range over the runes of a string are
  modelled byte by byte: on UTF-8 text the two agree wherever the loop compares against
  ASCII characters only (the quote, the backslash, the colon, the brackets and the three
  delimiters), since no byte of a multi-byte sequence is ASCII. The predicates
  \<open>unicode.IsLetter\<close>, \<open>unicode.IsDigit\<close> and the white space of
  \<open>strings.TrimSpace\<close> are modelled on the ASCII range.
\<close>

subsection \<open>Characters and library string functions\<close>

abbreviation dquote :: char where "dquote \<equiv> CHR 0x22"
abbreviation backslash :: char where "backslash \<equiv> CHR 0x5C"
abbreviation HTAB :: char where "HTAB \<equiv> CHR 0x09"
abbreviation LF :: char where "LF \<equiv> CHR 0x0A"
abbreviation CR :: char where "CR \<equiv> CHR 0x0D"

definition isDigit :: "char \<Rightarrow> bool" where
  "isDigit b = (CHR ''0'' \<le> b \<and> b \<le> CHR ''9'')"

definition IsLetter :: "char \<Rightarrow> bool" where
  "IsLetter r = ((CHR ''a'' \<le> r \<and> r \<le> CHR ''z'') \<or> (CHR ''A'' \<le> r \<and> r \<le> CHR ''Z''))"

definition isSpace :: "char \<Rightarrow> bool" where
  "isSpace c = (c = CHR '' '' \<or> c = HTAB \<or> c = LF \<or> c = CHR 0x0B \<or> c = CHR 0x0C \<or> c = CR)"

definition TrimSpace :: "string \<Rightarrow> string" where
  "TrimSpace s = rev (dropWhile isSpace (rev (dropWhile isSpace s)))"

definition HasPrefix :: "string \<Rightarrow> string \<Rightarrow> bool" where
  "HasPrefix s p = (take (length p) s = p)"

definition HasSuffix :: "string \<Rightarrow> string \<Rightarrow> bool" where
  "HasSuffix s p = (length p \<le> length s \<and> drop (length s - length p) s = p)"

text \<open>\<open>strings.Split(s, "\n")\<close>: always at least one piece.\<close>

fun Split_nl :: "string \<Rightarrow> string list" where
  "Split_nl [] = [[]]"
| "Split_nl (c # cs) =
     (if c = LF then [] # Split_nl cs
      else (case Split_nl cs of [] \<Rightarrow> [[c]] | x # xs \<Rightarrow> (c # x) # xs))"

text \<open>\<open>strings.ReplaceAll(s, "\r\n", "\n")\<close>.\<close>

fun ReplaceAll_crlf :: "string \<Rightarrow> string" where
  "ReplaceAll_crlf (c # d # cs) =
     (if c = CR \<and> d = LF then LF # ReplaceAll_crlf cs else c # ReplaceAll_crlf (d # cs))"
| "ReplaceAll_crlf cs = cs"

text \<open>\<open>strings.Join\<close>.\<close>

fun Join :: "string list \<Rightarrow> string \<Rightarrow> string" where
  "Join [] sep = []"
| "Join [x] sep = x"
| "Join (x # y # ys) sep = x @ sep @ Join (y # ys) sep"

text \<open>\<open>strconv.Itoa\<close> on a non-negative length.\<close>

definition digitChar :: "nat \<Rightarrow> char" where
  "digitChar d = ''0123456789'' ! d"

fun Itoa :: "nat \<Rightarrow> string" where
  "Itoa n = (if n < 10 then [digitChar n] else Itoa (n div 10) @ [digitChar (n mod 10)])"

declare Itoa.simps [simp del]

definition digitVal :: "char \<Rightarrow> nat" where
  "digitVal c = of_char c - of_char (CHR ''0'')"

definition decimalValue :: "string \<Rightarrow> nat" where
  "decimalValue ds = foldl (\<lambda>acc c. 10 * acc + digitVal c) 0 ds"

subsection \<open>Errors\<close>

text \<open>
  The source reports errors as messages. Each message of the source is one constructor,
  with the values its format string interpolates as arguments; \<open>parseError\<close> is the
  source's struct of a 1-based line number and the message of the error it wraps.
\<close>

datatype error =
    TabsInIndentation            \<comment> \<open>tabs are not allowed in indentation (strict mode)\<close>
  | IndentNotMultiple nat        \<comment> \<open>indentation must be a multiple of %d spaces\<close>
  | DivideByZero                 \<comment> \<open>runtime panic: integer divide by zero\<close>
  | TypeAssertionPanic           \<comment> \<open>runtime panic: interface conversion\<close>
  | MakeslicePanic               \<comment> \<open>runtime panic: makeslice: cap out of range\<close>
  | UnexpectedIndentation        \<comment> \<open>unexpected indentation\<close>
  | ArraysNeedKey                \<comment> \<open>arrays within objects must have a key\<close>
  | InlineLengthMismatch nat nat \<comment> \<open>inline array length mismatch; expected %d, got %d\<close>
  | BlankInsideTabular           \<comment> \<open>blank line inside tabular array\<close>
  | InvalidIndentTabularRow      \<comment> \<open>invalid indentation for tabular row\<close>
  | RowWidthMismatch             \<comment> \<open>tabular row width mismatch\<close>
  | TooManyTabularRows nat       \<comment> \<open>too many tabular rows (expected %d)\<close>
  | TabularLengthMismatch nat    \<comment> \<open>tabular length mismatch; expected %d rows\<close>
  | BlankInsideList              \<comment> \<open>blank line inside list array\<close>
  | InvalidIndentListItem        \<comment> \<open>invalid indentation for list item\<close>
  | InvalidHeaderInListItem      \<comment> \<open>invalid array header in list item\<close>
  | ListLengthMismatch nat       \<comment> \<open>list length mismatch; expected %d items\<close>
  | BlankInsideObjectListItem    \<comment> \<open>blank line inside object list item\<close>
  | InvalidIndentSibling         \<comment> \<open>invalid indentation for object list sibling\<close>
  | MissingClosingBracket        \<comment> \<open>missing closing bracket in array header\<close>
  | InvalidFieldSegment          \<comment> \<open>invalid field segment in array header\<close>
  | MissingArrayLength           \<comment> \<open>missing array length\<close>
  | InvalidDelimiterSymbol char  \<comment> \<open>invalid delimiter symbol %q\<close>
  | MissingDigits                \<comment> \<open>missing digits in array length\<close>
  | AtoiOutOfRange string        \<comment> \<open>strconv.Atoi: value out of range\<close>
  | MissingColon                 \<comment> \<open>missing colon after key\<close>
  | EmptyKey                     \<comment> \<open>empty key\<close>
  | InvalidUnquotedKey string    \<comment> \<open>invalid unquoted key %q\<close>
  | InvalidQuotedString          \<comment> \<open>invalid quoted string\<close>
  | InvalidEscape char           \<comment> \<open>invalid escape sequence \\%c\<close>
  | UnterminatedEscape           \<comment> \<open>unterminated escape sequence\<close>
  | UnterminatedString           \<comment> \<open>unterminated string in delimited values\<close>
  | ParseFloatError string       \<comment> \<open>the error of strconv.ParseFloat\<close>
  | UnsupportedControlChar char  \<comment> \<open>toon: unsupported control character U+%04X in string\<close>
  | UnsupportedMapKey            \<comment> \<open>toon: unsupported map key type %s\<close>
  | UnsupportedValue             \<comment> \<open>toon: unsupported value of type %T\<close>
  | UnsupportedPrimitive         \<comment> \<open>toon: unsupported primitive %T\<close>
  | FieldError string error      \<comment> \<open>toon: %s: %w\<close>
  | parseError nat error         \<comment> \<open>line %d: %s\<close>

definition errorAt :: "nat \<Rightarrow> error \<Rightarrow> error" where
  "errorAt line msg = parseError line msg"

definition errorWrap :: "nat \<Rightarrow> error \<Rightarrow> error" where
  "errorWrap line err = parseError line err"

subsection \<open>Options\<close>

text \<open>
  A \<open>Delimiter\<close> is a rune; the options accept any rune and keep only the three
  recognised ones.
\<close>

type_synonym Delimiter = int

definition DelimiterComma :: Delimiter where "DelimiterComma = 44"
definition DelimiterTab :: Delimiter where "DelimiterTab = 9"
definition DelimiterPipe :: Delimiter where "DelimiterPipe = 124"

definition rune :: "Delimiter \<Rightarrow> char" where
  "rune d = (if d = DelimiterComma then CHR '',''
             else if d = DelimiterTab then HTAB
             else if d = DelimiterPipe then CHR ''|''
             else CHR '','')"

record 't encoderOptions =
  indentSize :: int
  documentDelimiter :: Delimiter
  arrayDelimiter :: Delimiter
  includeLengthMarks :: bool
  timeFormatter :: "'t \<Rightarrow> string"

text \<open>
  The default time formatter, \<open>t.UTC().Format(time.RFC3339Nano)\<close>, is library code
  and is taken as the parameter \<open>rfc3339\<close>.
\<close>

definition defaultEncoderOptions :: "('t \<Rightarrow> string) \<Rightarrow> 't encoderOptions" where
  "defaultEncoderOptions rfc3339 =
     \<lparr>indentSize = 2, documentDelimiter = DelimiterComma, arrayDelimiter = DelimiterComma,
      includeLengthMarks = False, timeFormatter = rfc3339\<rparr>"

definition WithIndent :: "int \<Rightarrow> 't encoderOptions \<Rightarrow> 't encoderOptions" where
  "WithIndent spaces cfg = (if spaces > 0 then cfg\<lparr>indentSize := spaces\<rparr> else cfg)"

definition WithDocumentDelimiter :: "Delimiter \<Rightarrow> 't encoderOptions \<Rightarrow> 't encoderOptions" where
  "WithDocumentDelimiter delimiter cfg =
     (if delimiter = DelimiterComma \<or> delimiter = DelimiterTab \<or> delimiter = DelimiterPipe
      then cfg\<lparr>documentDelimiter := delimiter\<rparr> else cfg)"

definition WithArrayDelimiter :: "Delimiter \<Rightarrow> 't encoderOptions \<Rightarrow> 't encoderOptions" where
  "WithArrayDelimiter delimiter cfg =
     (if delimiter = DelimiterComma \<or> delimiter = DelimiterTab \<or> delimiter = DelimiterPipe
      then cfg\<lparr>arrayDelimiter := delimiter\<rparr> else cfg)"

definition WithLengthMarkers :: "bool \<Rightarrow> 't encoderOptions \<Rightarrow> 't encoderOptions" where
  "WithLengthMarkers enabled cfg = cfg\<lparr>includeLengthMarks := enabled\<rparr>"

text \<open>A nil formatter is \<open>None\<close>.\<close>

definition WithTimeFormatter :: "('t \<Rightarrow> string) option \<Rightarrow> 't encoderOptions \<Rightarrow> 't encoderOptions" where
  "WithTimeFormatter formatter cfg =
     (case formatter of Some f \<Rightarrow> cfg\<lparr>timeFormatter := f\<rparr> | None \<Rightarrow> cfg)"

record decoderOptions =
  indentSizeD :: int
  strict :: bool
  documentDelim :: Delimiter

definition defaultDecoderOptions :: decoderOptions where
  "defaultDecoderOptions = \<lparr>indentSizeD = 2, strict = True, documentDelim = DelimiterComma\<rparr>"

definition WithStrictMode :: "bool \<Rightarrow> decoderOptions \<Rightarrow> decoderOptions" where
  "WithStrictMode s cfg = cfg\<lparr>strict := s\<rparr>"

definition WithDecoderIndent :: "int \<Rightarrow> decoderOptions \<Rightarrow> decoderOptions" where
  "WithDecoderIndent spaces cfg = (if spaces > 0 then cfg\<lparr>indentSizeD := spaces\<rparr> else cfg)"

definition WithDecoderDocumentDelimiter :: "Delimiter \<Rightarrow> decoderOptions \<Rightarrow> decoderOptions" where
  "WithDecoderDocumentDelimiter delimiter cfg =
     (if delimiter = DelimiterComma \<or> delimiter = DelimiterTab \<or> delimiter = DelimiterPipe
      then cfg\<lparr>documentDelim := delimiter\<rparr> else cfg)"

text \<open>
  \<open>NewEncoder\<close> and \<open>NewDecoder\<close>: the options are applied in order to the
  defaults.
\<close>

definition NewEncoder :: "('t \<Rightarrow> string) \<Rightarrow> ('t encoderOptions \<Rightarrow> 't encoderOptions) list \<Rightarrow> 't encoderOptions" where
  "NewEncoder rfc3339 opts = foldl (\<lambda>cfg opt. opt cfg) (defaultEncoderOptions rfc3339) opts"

definition NewDecoder :: "(decoderOptions \<Rightarrow> decoderOptions) list \<Rightarrow> decoderOptions" where
  "NewDecoder opts = foldl (\<lambda>cfg opt. opt cfg) defaultDecoderOptions opts"

subsection \<open>Package format: quoting and key rules\<close>

record Context =
  Active :: char
  Document :: char
  InArray :: bool

fun ValidateCharacters :: "string \<Rightarrow> error + unit" where
  "ValidateCharacters [] = Inr ()"
| "ValidateCharacters (r # rs) =
     (if r < CHR 0x20 \<and> r \<noteq> LF \<and> r \<noteq> CR \<and> r \<noteq> HTAB then Inl (UnsupportedControlChar r)
      else ValidateCharacters rs)"

text \<open>The optional fraction and the optional exponent of \<open>LooksNumeric\<close>.\<close>

definition skipFraction :: "string \<Rightarrow> string option" where
  "skipFraction s =
     (case s of
        c # t \<Rightarrow>
          if c = CHR ''.'' then
            (if t = [] \<or> \<not> isDigit (hd t) then None else Some (dropWhile isDigit t))
          else Some s
      | [] \<Rightarrow> Some s)"

definition skipExponent :: "string \<Rightarrow> string option" where
  "skipExponent s =
     (case s of
        c # t \<Rightarrow>
          if c = CHR ''e'' \<or> c = CHR ''E'' then
            (let t' = (case t of d # u \<Rightarrow> if d = CHR ''+'' \<or> d = CHR ''-'' then u else t | [] \<Rightarrow> t)
             in if t' = [] \<or> \<not> isDigit (hd t') then None else Some (dropWhile isDigit t'))
          else Some s
      | [] \<Rightarrow> Some s)"

definition LooksNumeric :: "string \<Rightarrow> bool" where
  "LooksNumeric s =
     (if s = [] then False
      else let s1 = (if hd s = CHR ''-'' then tl s else s) in
        if hd s = CHR ''-'' \<and> s1 = [] then False
        else if takeWhile isDigit s1 = [] then False
        else (case skipFraction (dropWhile isDigit s1) of
                None \<Rightarrow> False
              | Some s2 \<Rightarrow> (case skipExponent s2 of None \<Rightarrow> False | Some s3 \<Rightarrow> s3 = [])))"

definition HasLeadingZeroDecimal :: "string \<Rightarrow> bool" where
  "HasLeadingZeroDecimal s =
     (if length s < 2 then False
      else if s ! 0 \<noteq> CHR ''0'' then False
      else CHR ''0'' \<le> s ! 1 \<and> s ! 1 \<le> CHR ''9'')"

definition ContainsAny :: "string \<Rightarrow> string \<Rightarrow> bool" where
  "ContainsAny s chars = (\<exists>c \<in> set s. c \<in> set chars)"

definition ContainsRune :: "string \<Rightarrow> char \<Rightarrow> bool" where
  "ContainsRune s r = (r \<in> set s)"

definition NeedsQuoting :: "string \<Rightarrow> Context \<Rightarrow> bool" where
  "NeedsQuoting s ctx =
     (if length s = 0 then True
      else if TrimSpace s \<noteq> s then True
      else if s = ''true'' \<or> s = ''false'' \<or> s = ''null'' then True
      else if LooksNumeric s then True
      else if HasLeadingZeroDecimal s then True
      else if ContainsAny s [CHR '':'', backslash, dquote, CHR ''['', CHR '']'', CHR ''{'', CHR ''}''] then True
      else if ContainsRune s LF \<or> ContainsRune s CR \<or> ContainsRune s HTAB then True
      else if HasPrefix s ''-'' then True
      else if InArray ctx \<and> Active ctx \<noteq> CHR 0x00 \<and> ContainsRune s (Active ctx) then True
      else if \<not> InArray ctx \<and> Document ctx \<noteq> CHR 0x00 \<and> ContainsRune s (Document ctx) then True
      else False)"

text \<open>The loop of \<open>QuoteString\<close>, with the builder as accumulator.\<close>

fun QuoteString_loop :: "string \<Rightarrow> string \<Rightarrow> error + string" where
  "QuoteString_loop [] b = Inr b"
| "QuoteString_loop (r # rs) b =
     (if r = backslash then QuoteString_loop rs (b @ [backslash, backslash])
      else if r = dquote then QuoteString_loop rs (b @ [backslash, dquote])
      else if r = LF then QuoteString_loop rs (b @ [backslash, CHR ''n''])
      else if r = CR then QuoteString_loop rs (b @ [backslash, CHR ''r''])
      else if r = HTAB then QuoteString_loop rs (b @ [backslash, CHR ''t''])
      else if r < CHR 0x20 then Inl (UnsupportedControlChar r)
      else QuoteString_loop rs (b @ [r]))"

definition QuoteString :: "string \<Rightarrow> error + string" where
  "QuoteString s =
     (case QuoteString_loop s [dquote] of Inl e \<Rightarrow> Inl e | Inr b \<Rightarrow> Inr (b @ [dquote]))"

definition FormatString :: "string \<Rightarrow> Context \<Rightarrow> error + string" where
  "FormatString s ctx =
     (case ValidateCharacters s of
        Inl err \<Rightarrow> Inl err
      | Inr _ \<Rightarrow> if NeedsQuoting s ctx then QuoteString s else Inr s)"

text \<open>The loop of \<open>IsValidUnquotedKey\<close> after the first rune.\<close>

definition IsValidUnquotedKey :: "string \<Rightarrow> bool" where
  "IsValidUnquotedKey key =
     (case key of
        [] \<Rightarrow> False
      | r # rs \<Rightarrow>
          (r = CHR ''_'' \<or> IsLetter r) \<and>
          (\<forall>c \<in> set rs. IsLetter c \<or> isDigit c \<or> c = CHR ''_'' \<or> c = CHR ''.''))"

definition EncodeKey :: "string \<Rightarrow> error + string" where
  "EncodeKey key =
     (if key = [] then QuoteString key
      else if IsValidUnquotedKey key then Inr key
      else QuoteString key)"

subsection \<open>Package parse: unquoting and the inline tokenizer\<close>

text \<open>The loop of \<open>UnquoteString\<close> over the bytes between the two quotes.\<close>

fun UnquoteString_loop :: "string \<Rightarrow> bool \<Rightarrow> string \<Rightarrow> error + string" where
  "UnquoteString_loop [] escaped b = (if escaped then Inl UnterminatedEscape else Inr b)"
| "UnquoteString_loop (ch # rest) escaped b =
     (if escaped then
        (if ch = backslash \<or> ch = dquote then UnquoteString_loop rest False (b @ [ch])
         else if ch = CHR ''n'' then UnquoteString_loop rest False (b @ [LF])
         else if ch = CHR ''r'' then UnquoteString_loop rest False (b @ [CR])
         else if ch = CHR ''t'' then UnquoteString_loop rest False (b @ [HTAB])
         else Inl (InvalidEscape ch))
      else if ch = backslash then UnquoteString_loop rest True b
      else UnquoteString_loop rest False (b @ [ch]))"

definition UnquoteString :: "string \<Rightarrow> error + string" where
  "UnquoteString token =
     (if length token < 2 \<or> hd token \<noteq> dquote \<or> last token \<noteq> dquote then Inl InvalidQuotedString
      else UnquoteString_loop (butlast (tl token)) False [])"

text \<open>
  The loop of \<open>SplitInlineValues\<close>: \<open>current\<close> is the builder, \<open>tokens\<close> the tokens
  so far.
\<close>

fun SplitInlineValues_loop ::
  "string \<Rightarrow> char \<Rightarrow> bool \<Rightarrow> bool \<Rightarrow> string \<Rightarrow> string list \<Rightarrow> error + string list" where
  "SplitInlineValues_loop [] delimiter inQuotes escaped current tokens =
     (if inQuotes then Inl UnterminatedString else Inr (tokens @ [TrimSpace current]))"
| "SplitInlineValues_loop (r # rs) delimiter inQuotes escaped current tokens =
     (if escaped then SplitInlineValues_loop rs delimiter inQuotes False (current @ [r]) tokens
      else if r = backslash \<and> inQuotes then
        SplitInlineValues_loop rs delimiter inQuotes True (current @ [r]) tokens
      else if r = dquote then
        SplitInlineValues_loop rs delimiter (\<not> inQuotes) False (current @ [r]) tokens
      else if r = delimiter \<and> \<not> inQuotes then
        SplitInlineValues_loop rs delimiter inQuotes False [] (tokens @ [TrimSpace current])
      else SplitInlineValues_loop rs delimiter inQuotes False (current @ [r]) tokens)"

definition SplitInlineValues :: "string \<Rightarrow> char \<Rightarrow> error + string list" where
  "SplitInlineValues segment delimiter =
     (if TrimSpace segment = [] then Inr []
      else SplitInlineValues_loop segment delimiter False False [] [])"

subsection \<open>The data model\<close>

text \<open>
  A normalized value is nil, a bool, a string, a \<open>numberValue\<close> holding its literal,
  an \<open>Object\<close> holding its fields in order, or a slice. A \<open>Field\<close> is a pair of a
  key and a value.
\<close>

datatype normalizedValue =
    Null
  | Bool bool
  | String string
  | numberValue string
  | Object "(string \<times> normalizedValue) list"
  | Slice "normalizedValue list"

abbreviation Key :: "string \<times> 'v \<Rightarrow> string" where "Key \<equiv> fst"
abbreviation Value :: "string \<times> 'v \<Rightarrow> 'v" where "Value \<equiv> snd"

definition maxSafeInteger :: int where
  "maxSafeInteger = 9007199254740991"

text \<open>
  The operations on \<open>float64\<close> that the codec calls from \<open>strconv\<close> and \<open>math\<close> are
  library code. They are taken as a parameter: \<open>ParseFloat s\<close> is \<open>None\<close> when
  \<open>strconv.ParseFloat(s, 64)\<close> returns an error, \<open>FormatFloat f\<close> is
  \<open>strconv.FormatFloat(f, 'f', -1, 64)\<close>, \<open>IsInf f\<close> is \<open>math.IsInf(f, 0)\<close>,
  \<open>isZero f\<close> is the comparison \<open>f == 0\<close> (true of both zeros) and \<open>zero\<close> is the
  constant \<open>0\<close>.
\<close>

record 'f float64 =
  ParseFloat :: "string \<Rightarrow> 'f option"
  FormatFloat :: "'f \<Rightarrow> string"
  IsNaN :: "'f \<Rightarrow> bool"
  IsInf :: "'f \<Rightarrow> bool"
  isZero :: "'f \<Rightarrow> bool"
  zero :: 'f

text \<open>
  The values \<open>normalize\<close> receives, by the case of its type switch and of its switch
  on the reflected kind that takes them. A map is given by its entries in the order
  \<open>MapRange\<close> happens to iterate them. A struct is given by the fields of its cached
  metadata in order: the name, whether the field is skipped (\<open>omitEmpty\<close> and
  \<open>isEmptyValue\<close> of the reflected child) and the child.
\<close>

datatype ('f, 't) hostValue =
    HNil
  | HString string
  | HBool bool
  | HJsonNumber string
  | HFloat 'f
  | HInt int
  | HUint nat
  | HBigInt "int option"
  | HTime 't
  | HStringer string
  | HObject "(string \<times> ('f, 't) hostValue) list"
  | HField string "('f, 't) hostValue"
  | HPointer "('f, 't) hostValue option"
  | HSlice "('f, 't) hostValue list"
  | HMap "(string \<times> ('f, 't) hostValue) list"
  | HMapOtherKey
  | HStruct "(string \<times> bool \<times> ('f, 't) hostValue) list"
  | HOther

subsection \<open>The normalizer\<close>

definition FormatInt :: "int \<Rightarrow> string" where
  "FormatInt i = (if i < 0 then CHR ''-'' # Itoa (nat (- i)) else Itoa (nat i))"

definition normalizeFloat :: "'f float64 \<Rightarrow> 'f \<Rightarrow> error + normalizedValue" where
  "normalizeFloat fl f =
     (if IsNaN fl f then Inr Null
      else if IsInf fl f then Inr Null
      else Inr (numberValue (FormatFloat fl (if isZero fl f then zero fl else f))))"

definition normalizeNumberString :: "'f float64 \<Rightarrow> string \<Rightarrow> error + normalizedValue" where
  "normalizeNumberString fl s =
     (case ParseFloat fl s of
        None \<Rightarrow> Inr (String s)
      | Some f \<Rightarrow>
          if IsInf fl f \<or> IsNaN fl f then Inr Null
          else Inr (numberValue (FormatFloat fl (if isZero fl f then zero fl else f))))"

definition normalizeInt :: "int \<Rightarrow> error + normalizedValue" where
  "normalizeInt i =
     (if i > maxSafeInteger \<or> i < - maxSafeInteger then Inr (String (FormatInt i))
      else Inr (numberValue (FormatInt i)))"

text \<open>\<open>slices.SortFunc\<close> with the comparison of the keys as byte strings.\<close>

definition SortFunc_Key :: "(string \<times> 'v) list \<Rightarrow> (string \<times> 'v) list" where
  "SortFunc_Key flds = sort_key Key flds"

fun normalize :: "'f float64 \<Rightarrow> 't encoderOptions \<Rightarrow> ('f, 't) hostValue \<Rightarrow> error + normalizedValue"
and normalizeObjectFields ::
  "'f float64 \<Rightarrow> 't encoderOptions \<Rightarrow> (string \<times> ('f, 't) hostValue) list
    \<Rightarrow> error + (string \<times> normalizedValue) list"
and normalizeSliceItems ::
  "'f float64 \<Rightarrow> 't encoderOptions \<Rightarrow> ('f, 't) hostValue list \<Rightarrow> error + normalizedValue list"
and normalizeMapEntries ::
  "'f float64 \<Rightarrow> 't encoderOptions \<Rightarrow> (string \<times> ('f, 't) hostValue) list
    \<Rightarrow> error + (string \<times> normalizedValue) list"
and normalizeStructValue ::
  "'f float64 \<Rightarrow> 't encoderOptions \<Rightarrow> (string \<times> bool \<times> ('f, 't) hostValue) list
    \<Rightarrow> error + (string \<times> normalizedValue) list"
where
  "normalize fl cfg HNil = Inr Null"
| "normalize fl cfg (HString val) = Inr (String val)"
| "normalize fl cfg (HBool val) = Inr (Bool val)"
| "normalize fl cfg (HJsonNumber val) = normalizeNumberString fl val"
| "normalize fl cfg (HFloat val) = normalizeFloat fl val"
| "normalize fl cfg (HInt i) = normalizeInt i"
| "normalize fl cfg (HUint u) =
     (if int u > maxSafeInteger then Inr (String (Itoa u)) else Inr (numberValue (Itoa u)))"
| "normalize fl cfg (HBigInt None) = Inr Null"
| "normalize fl cfg (HBigInt (Some val)) =
     (if - (2 ^ 63) \<le> val \<and> val < 2 ^ 63 then normalizeInt val else Inr (String (FormatInt val)))"
| "normalize fl cfg (HTime val) = Inr (String (timeFormatter cfg val))"
| "normalize fl cfg (HStringer val) = Inr (String val)"
| "normalize fl cfg (HObject flds) =
     (case normalizeObjectFields fl cfg flds of Inl err \<Rightarrow> Inl err | Inr fs \<Rightarrow> Inr (Object fs))"
| "normalize fl cfg (HField k v) =
     (case normalizeObjectFields fl cfg [(k, v)] of Inl err \<Rightarrow> Inl err | Inr fs \<Rightarrow> Inr (Object fs))"
| "normalize fl cfg (HPointer None) = Inr Null"
| "normalize fl cfg (HPointer (Some v)) = normalize fl cfg v"
| "normalize fl cfg (HSlice items) =
     (case normalizeSliceItems fl cfg items of Inl err \<Rightarrow> Inl err | Inr result \<Rightarrow> Inr (Slice result))"
| "normalize fl cfg (HMap entries) =
     (case normalizeMapEntries fl cfg entries of
        Inl err \<Rightarrow> Inl err
      | Inr flds \<Rightarrow> Inr (Object (SortFunc_Key flds)))"
| "normalize fl cfg HMapOtherKey = Inl UnsupportedMapKey"
| "normalize fl cfg (HStruct flds) =
     (case normalizeStructValue fl cfg flds of Inl err \<Rightarrow> Inl err | Inr fs \<Rightarrow> Inr (Object fs))"
| "normalize fl cfg HOther = Inl UnsupportedValue"
| "normalizeObjectFields fl cfg [] = Inr []"
| "normalizeObjectFields fl cfg (field # flds) =
     (case normalize fl cfg (Value field) of
        Inl err \<Rightarrow> Inl (FieldError (Key field) err)
      | Inr child \<Rightarrow>
          (case normalizeObjectFields fl cfg flds of
             Inl err \<Rightarrow> Inl err
           | Inr normalized \<Rightarrow> Inr ((Key field, child) # normalized)))"
| "normalizeSliceItems fl cfg [] = Inr []"
| "normalizeSliceItems fl cfg (v # vs) =
     (case normalize fl cfg v of
        Inl err \<Rightarrow> Inl err
      | Inr item \<Rightarrow>
          (case normalizeSliceItems fl cfg vs of
             Inl err \<Rightarrow> Inl err
           | Inr result \<Rightarrow> Inr (item # result)))"
| "normalizeMapEntries fl cfg [] = Inr []"
| "normalizeMapEntries fl cfg (entry # entries) =
     (case normalize fl cfg (Value entry) of
        Inl err \<Rightarrow> Inl err
      | Inr fieldValue \<Rightarrow>
          (case normalizeMapEntries fl cfg entries of
             Inl err \<Rightarrow> Inl err
           | Inr flds \<Rightarrow> Inr ((Key entry, fieldValue) # flds)))"
| "normalizeStructValue fl cfg [] = Inr []"
| "normalizeStructValue fl cfg ((name, skip, childValue) # meta) =
     (if skip then normalizeStructValue fl cfg meta
      else (case normalize fl cfg childValue of
              Inl err \<Rightarrow> Inl (FieldError name err)
            | Inr child \<Rightarrow>
                (case normalizeStructValue fl cfg meta of
                   Inl err \<Rightarrow> Inl err
                 | Inr flds \<Rightarrow> Inr ((name, child) # flds))))"

subsection \<open>The encoder\<close>

record formatContext =
  active :: Delimiter
  document :: Delimiter
  inArray :: bool

definition toInternal :: "formatContext \<Rightarrow> Context" where
  "toInternal c = \<lparr>Active = rune (active c), Document = rune (document c), InArray = inArray c\<rparr>"

fun formatPrimitive :: "normalizedValue \<Rightarrow> formatContext \<Rightarrow> error + string" where
  "formatPrimitive Null ctx = Inr ''null''"
| "formatPrimitive (Bool v) ctx = (if v then Inr ''true'' else Inr ''false'')"
| "formatPrimitive (String v) ctx = FormatString v (toInternal ctx)"
| "formatPrimitive (numberValue literal) ctx = Inr literal"
| "formatPrimitive _ ctx = Inl UnsupportedPrimitive"

definition encodeKey :: "string \<Rightarrow> error + string" where
  "encodeKey key = EncodeKey key"

fun isPrimitive :: "normalizedValue \<Rightarrow> bool" where
  "isPrimitive Null = True"
| "isPrimitive (Bool _) = True"
| "isPrimitive (String _) = True"
| "isPrimitive (numberValue _) = True"
| "isPrimitive _ = False"

definition isPrimitiveArray :: "normalizedValue list \<Rightarrow> bool" where
  "isPrimitiveArray values = (\<forall>v \<in> set values. isPrimitive v)"

text \<open>
  The check \<open>detectTabular\<close> makes on each element after the first: \<open>seen\<close> is the
  set of the element's keys, so \<open>len(seen)\<close> is the number of its distinct keys.
\<close>

definition tabularRow :: "string list \<Rightarrow> normalizedValue \<Rightarrow> bool" where
  "tabularRow flds v =
     (case v of
        Object obj \<Rightarrow>
          length obj = length flds \<and>
          (\<forall>field \<in> set obj. Key field \<in> set flds \<and> isPrimitive (Value field)) \<and>
          length (remdups (map Key obj)) = length flds
      | _ \<Rightarrow> False)"

definition detectTabular :: "normalizedValue list \<Rightarrow> string list option" where
  "detectTabular values =
     (case values of
        [] \<Rightarrow> None
      | Object first # others \<Rightarrow>
          if first = [] then None
          else if \<not> (\<forall>field \<in> set first. isPrimitive (Value field)) then None
          else if \<not> (\<forall>v \<in> set others. tabularRow (map Key first) v) then None
          else Some (map Key first)
      | _ # others \<Rightarrow> None)"

fun objField :: "(string \<times> normalizedValue) list \<Rightarrow> string \<Rightarrow> normalizedValue" where
  "objField [] key = Null"
| "objField (field # rest) key = (if Key field = key then Value field else objField rest key)"

definition renderHeader :: "string \<Rightarrow> nat \<Rightarrow> Delimiter \<Rightarrow> bool \<Rightarrow> string list \<Rightarrow> string" where
  "renderHeader keyLiteral len delimiter includeMarker flds =
     keyLiteral @ ''['' @ (if includeMarker then ''#'' else [])
       @ Itoa len
       @ (if delimiter \<noteq> DelimiterComma then [rune delimiter] else [])
       @ '']''
       @ (if length flds > 0
          then ''{'' @ Join (map (\<lambda>field. case encodeKey field of Inl _ \<Rightarrow> [] | Inr l \<Rightarrow> l) flds)
                             [rune delimiter] @ ''}''
          else [])
       @ '':''"

definition indent :: "'t encoderOptions \<Rightarrow> nat \<Rightarrow> string" where
  "indent cfg depth = (if depth \<le> 0 then [] else replicate (depth * nat (indentSize cfg)) CHR '' '')"

text \<open>
  The encoder appends lines to its state and stops at the first error; a function of the
  model returns the lines it emits. \<open>andThen\<close> runs two emitting steps in sequence.
\<close>

definition andThen :: "error + string list \<Rightarrow> error + string list \<Rightarrow> error + string list" where
  "andThen a b =
     (case a of
        Inl err \<Rightarrow> Inl err
      | Inr ls \<Rightarrow> (case b of Inl err \<Rightarrow> Inl err | Inr ls' \<Rightarrow> Inr (ls @ ls')))"

text \<open>The loop that formats the elements of a primitive array.\<close>

fun formatInline :: "normalizedValue list \<Rightarrow> formatContext \<Rightarrow> error + string list" where
  "formatInline [] ctx = Inr []"
| "formatInline (v # vs) ctx =
     (case formatPrimitive v ctx of
        Inl err \<Rightarrow> Inl err
      | Inr token \<Rightarrow>
          (case formatInline vs ctx of Inl err \<Rightarrow> Inl err | Inr inline \<Rightarrow> Inr (token # inline)))"

text \<open>The loop that formats one row of a tabular array, in the order of the header.\<close>

fun formatRow :: "(string \<times> normalizedValue) list \<Rightarrow> string list \<Rightarrow> formatContext \<Rightarrow> error + string list" where
  "formatRow obj [] ctx = Inr []"
| "formatRow obj (field # flds) ctx =
     (case formatPrimitive (objField obj field) ctx of
        Inl err \<Rightarrow> Inl err
      | Inr token \<Rightarrow>
          (case formatRow obj flds ctx of
             Inl err \<Rightarrow> Inl err
           | Inr rowValues \<Rightarrow> Inr (token # rowValues)))"

text \<open>
  The loop over the rows of a tabular array. \<open>detectTabular\<close> has made every row an
  \<open>Object\<close>; on any other value the type assertion of the source panics.
\<close>

fun encodeRows ::
  "'t encoderOptions \<Rightarrow> normalizedValue list \<Rightarrow> string list \<Rightarrow> nat \<Rightarrow> formatContext \<Rightarrow> error + string list" where
  "encodeRows cfg [] flds depth ctx = Inr []"
| "encodeRows cfg (row # rows) flds depth ctx =
     (case row of
        Object obj \<Rightarrow>
          (case formatRow obj flds ctx of
             Inl err \<Rightarrow> Inl err
           | Inr rowValues \<Rightarrow>
               andThen (Inr [indent cfg (depth + 1) @ Join rowValues [rune (active ctx)]])
                       (encodeRows cfg rows flds depth ctx))
      | _ \<Rightarrow> Inl TypeAssertionPanic)"

text \<open>The line of a primitive array: the header and, unless the array is empty, the values.\<close>

definition inlineLine ::
  "'t encoderOptions \<Rightarrow> string \<Rightarrow> string \<Rightarrow> normalizedValue list \<Rightarrow> Delimiter \<Rightarrow> formatContext
    \<Rightarrow> error + string list" where
  "inlineLine cfg pre keyLiteral values delimiter ctx =
     (let header = renderHeader keyLiteral (length values) delimiter (includeLengthMarks cfg) [];
          line = pre @ header
      in if length values > 0 then
           (case formatInline values ctx of
              Inl err \<Rightarrow> Inl err
            | Inr inline \<Rightarrow> Inr [line @ '' '' @ Join inline [rune delimiter]])
         else Inr [line])"

text \<open>The size of a field bounds the size of its value: for the termination proof below.\<close>

lemma size_Value_Object:
  "Value field = Object x \<Longrightarrow>
   size_prod (\<lambda>_. 0) size field = size_list (size_prod (\<lambda>_. 0) size) x + 2"
  by (cases field) simp

lemma size_Value_Slice:
  "Value field = Slice x \<Longrightarrow> size_prod (\<lambda>_. 0) size field = size_list size x + 2"
  by (cases field) simp

text \<open>
  The mutually recursive methods of \<open>encodeState\<close>. \<open>encodeObjectFields\<close>,
  \<open>encodeArrayItems\<close> and \<open>encodeListItems\<close> are the loops of \<open>encodeObject\<close>,
  \<open>encodeArray\<close> and \<open>encodeArrayForObjectListItem\<close>.
\<close>

function encodeObject :: "'t encoderOptions \<Rightarrow> (string \<times> normalizedValue) list \<Rightarrow> nat \<Rightarrow> error + string list"
and encodeObjectFields ::
  "'t encoderOptions \<Rightarrow> (string \<times> normalizedValue) list \<Rightarrow> nat \<Rightarrow> error + string list"
and encodeArray ::
  "'t encoderOptions \<Rightarrow> string \<Rightarrow> normalizedValue list \<Rightarrow> nat \<Rightarrow> bool \<Rightarrow> error + string list"
and encodeArrayItems ::
  "'t encoderOptions \<Rightarrow> normalizedValue list \<Rightarrow> nat \<Rightarrow> bool \<Rightarrow> formatContext \<Rightarrow> error + string list"
and encodeArrayItem ::
  "'t encoderOptions \<Rightarrow> normalizedValue \<Rightarrow> nat \<Rightarrow> formatContext \<Rightarrow> error + string list"
and encodeListItem ::
  "'t encoderOptions \<Rightarrow> normalizedValue \<Rightarrow> nat \<Rightarrow> formatContext \<Rightarrow> error + string list"
and encodeObjectListItem ::
  "'t encoderOptions \<Rightarrow> (string \<times> normalizedValue) list \<Rightarrow> nat \<Rightarrow> formatContext \<Rightarrow> error + string list"
and encodeArrayForObjectListItem ::
  "'t encoderOptions \<Rightarrow> string \<Rightarrow> normalizedValue list \<Rightarrow> nat \<Rightarrow> formatContext \<Rightarrow> error + string list"
and encodeListItems ::
  "'t encoderOptions \<Rightarrow> normalizedValue list \<Rightarrow> nat \<Rightarrow> formatContext \<Rightarrow> error + string list"
where
  "encodeObject cfg obj depth =
     (if depth = 0 \<and> obj = [] then Inr [] else encodeObjectFields cfg obj depth)"
| "encodeObjectFields cfg [] depth = Inr []"
| "encodeObjectFields cfg (field # rest) depth =
     andThen
       (case Value field of
          Object val \<Rightarrow>
            (case encodeKey (Key field) of
               Inl err \<Rightarrow> Inl err
             | Inr keyLiteral \<Rightarrow>
                 andThen (Inr [indent cfg depth @ keyLiteral @ '':'']) (encodeObject cfg val (depth + 1)))
        | Slice val \<Rightarrow> encodeArray cfg (Key field) val depth False
        | val \<Rightarrow>
            (case encodeKey (Key field) of
               Inl err \<Rightarrow> Inl err
             | Inr keyLiteral \<Rightarrow>
                 (case formatPrimitive val
                         \<lparr>active = arrayDelimiter cfg, document = documentDelimiter cfg, inArray = False\<rparr> of
                    Inl err \<Rightarrow> Inl err
                  | Inr token \<Rightarrow> Inr [indent cfg depth @ keyLiteral @ '': '' @ token])))
       (encodeObjectFields cfg rest depth)"
| "encodeArray cfg key values depth root =
     (let delimiter = arrayDelimiter cfg;
          ctx = \<lparr>active = delimiter, document = documentDelimiter cfg, inArray = True\<rparr>
      in case (if key \<noteq> [] then encodeKey key else Inr []) of
           Inl err \<Rightarrow> Inl err
         | Inr keyLiteral \<Rightarrow>
             if isPrimitiveArray values then
               inlineLine cfg (indent cfg depth) keyLiteral values delimiter ctx
             else (case detectTabular values of
                     Some flds \<Rightarrow>
                       andThen
                         (Inr [indent cfg depth
                               @ renderHeader keyLiteral (length values) delimiter (includeLengthMarks cfg) flds])
                         (encodeRows cfg values flds depth ctx)
                   | None \<Rightarrow>
                       andThen
                         (Inr [indent cfg depth
                               @ renderHeader keyLiteral (length values) delimiter (includeLengthMarks cfg) []])
                         (encodeArrayItems cfg values (depth + 1) root ctx)))"
| "encodeArrayItems cfg [] depth root ctx = Inr []"
| "encodeArrayItems cfg (item # items) depth root ctx =
     andThen
       (if root then encodeListItem cfg item depth ctx else encodeArrayItem cfg item depth ctx)
       (encodeArrayItems cfg items depth root ctx)"
| "encodeArrayItem cfg item depth ctx =
     (case item of
        Object v \<Rightarrow> encodeObjectListItem cfg v depth ctx
      | Slice v \<Rightarrow> encodeArrayForObjectListItem cfg [] v depth ctx
      | v \<Rightarrow>
          (case formatPrimitive v ctx of
             Inl err \<Rightarrow> Inl err
           | Inr token \<Rightarrow> Inr [indent cfg depth @ ''- '' @ token]))"
| "encodeListItem cfg item depth ctx =
     (case item of
        Object v \<Rightarrow> encodeObjectListItem cfg v depth ctx
      | Slice v \<Rightarrow> encodeArrayForObjectListItem cfg [] v depth ctx
      | v \<Rightarrow>
          (case formatPrimitive v ctx of
             Inl err \<Rightarrow> Inl err
           | Inr token \<Rightarrow> Inr [indent cfg depth @ ''- '' @ token]))"
| "encodeObjectListItem cfg obj depth ctx =
     (case obj of
        [] \<Rightarrow> Inr [indent cfg depth @ ''- {}'']
      | first # others \<Rightarrow>
          if isPrimitive (Value first) then
            (case encodeKey (Key first) of
               Inl err \<Rightarrow> Inl err
             | Inr keyLiteral \<Rightarrow>
                 (case formatPrimitive (Value first) ctx of
                    Inl err \<Rightarrow> Inl err
                  | Inr token \<Rightarrow>
                      andThen (Inr [indent cfg depth @ ''- '' @ keyLiteral @ '': '' @ token])
                        (if length obj > 1 then encodeObject cfg others (depth + 1) else Inr [])))
          else (case Value first of
                  Slice arr \<Rightarrow>
                    (case encodeKey (Key first) of
                       Inl err \<Rightarrow> Inl err
                     | Inr keyLiteral \<Rightarrow>
                         andThen (encodeArrayForObjectListItem cfg keyLiteral arr depth ctx)
                           (if length obj > 1 then encodeObject cfg others (depth + 1) else Inr []))
                | _ \<Rightarrow> andThen (Inr [indent cfg depth @ ''-'']) (encodeObject cfg obj (depth + 1))))"
| "encodeArrayForObjectListItem cfg keyLiteral values depth ctx =
     (let delimiter = active ctx in
      case detectTabular values of
        Some flds \<Rightarrow>
          andThen
            (Inr [indent cfg depth @ ''- ''
                  @ renderHeader keyLiteral (length values) delimiter (includeLengthMarks cfg) flds])
            (encodeRows cfg values flds depth ctx)
      | None \<Rightarrow>
          if isPrimitiveArray values then
            inlineLine cfg (indent cfg depth @ ''- '') keyLiteral values delimiter ctx
          else
            andThen
              (Inr [indent cfg depth @ ''- ''
                    @ renderHeader keyLiteral (length values) delimiter (includeLengthMarks cfg) []])
              (encodeListItems cfg values (depth + 1) ctx))"
| "encodeListItems cfg [] depth ctx = Inr []"
| "encodeListItems cfg (item # items) depth ctx =
     andThen (encodeListItem cfg item depth ctx) (encodeListItems cfg items depth ctx)"
  by pat_completeness auto

termination
proof (relation "measure (case_sum
     (case_sum
        (case_sum (\<lambda>(cfg, obj, depth). 3 * size_list (size_prod (\<lambda>_. 0) size) obj + 1)
                  (\<lambda>(cfg, obj, depth). 3 * size_list (size_prod (\<lambda>_. 0) size) obj))
        (case_sum (\<lambda>(cfg, key, values, depth, root). 3 * size_list size values + 1)
                  (\<lambda>(cfg, values, depth, root, ctx). 3 * size_list size values)))
     (case_sum
        (case_sum (\<lambda>(cfg, item, depth, ctx). 3 * size item)
                  (\<lambda>(cfg, item, depth, ctx). 3 * size item))
        (case_sum (\<lambda>(cfg, obj, depth, ctx). 3 * size_list (size_prod (\<lambda>_. 0) size) obj + 2)
           (case_sum (\<lambda>(cfg, key, values, depth, ctx). 3 * size_list size values + 1)
                     (\<lambda>(cfg, values, depth, ctx). 3 * size_list size values)))))",
    goal_cases)
qed (auto dest: size_Value_Object size_Value_Slice)

declare encodeObject.simps [simp del] encodeObjectFields.simps [simp del] encodeArray.simps [simp del]
  encodeArrayItems.simps [simp del] encodeArrayItem.simps [simp del] encodeListItem.simps [simp del]
  encodeObjectListItem.simps [simp del] encodeArrayForObjectListItem.simps [simp del]
  encodeListItems.simps [simp del]

definition encodeRoot :: "'t encoderOptions \<Rightarrow> normalizedValue \<Rightarrow> error + string list" where
  "encodeRoot cfg v =
     (case v of
        Object val \<Rightarrow> encodeObject cfg val 0
      | Slice val \<Rightarrow> encodeArray cfg [] val 0 True
      | val \<Rightarrow>
          (case formatPrimitive val
                  \<lparr>active = arrayDelimiter cfg, document = documentDelimiter cfg, inArray = False\<rparr> of
             Inl err \<Rightarrow> Inl err
           | Inr token \<Rightarrow> Inr [token]))"

text \<open>\<open>Encoder.Marshal\<close>: normalize, encode, join the lines with a line feed.\<close>

definition Marshal :: "'f float64 \<Rightarrow> 't encoderOptions \<Rightarrow> ('f, 't) hostValue \<Rightarrow> error + string" where
  "Marshal fl cfg v =
     (case normalize fl cfg v of
        Inl err \<Rightarrow> Inl err
      | Inr normalized \<Rightarrow>
          (case encodeRoot cfg normalized of
             Inl err \<Rightarrow> Inl err
           | Inr ls \<Rightarrow> Inr (Join ls [LF])))"

subsection \<open>The decoder: values, lines and headers\<close>

text \<open>
  The decoder returns nil, a bool, a \<open>float64\<close>, a string, a \<open>map[string]any\<close> or
  a \<open>[]any\<close>.
\<close>

datatype 'f decoded =
    DNil
  | DBool bool
  | DFloat 'f
  | DString string
  | DMap "string \<Rightarrow> 'f decoded option"
  | DSlice "'f decoded list"

record parsedLine =
  lnumber :: nat
  lindent :: nat
  lcontent :: string
  lraw :: string
  lblank :: bool

record parsedHeader =
  hkey :: string
  hlength :: nat
  hdelimiter :: Delimiter
  hfields :: "string list"
  hinlineValues :: string

text \<open>The parser without its cursor \<open>pos\<close>, which the functions below pass along.\<close>

record parser =
  lines :: "parsedLine list"
  pcfg :: decoderOptions

definition splitLines :: "string \<Rightarrow> string list" where
  "splitLines input =
     (let ls = Split_nl (ReplaceAll_crlf input)
      in if length ls > 0 \<and> last ls = [] then butlast ls else ls)"

text \<open>
  The loop of \<open>computeIndent\<close> over the bytes of the line; \<open>n\<close> is the indent counted
  so far. A zero \<open>indentSize\<close> makes the division panic; no option sets it.
\<close>

fun computeIndent_loop :: "string \<Rightarrow> decoderOptions \<Rightarrow> nat \<Rightarrow> error + (nat \<times> string)" where
  "computeIndent_loop [] cfg n = Inr (0, [])"
| "computeIndent_loop (c # cs) cfg n =
     (if c = CHR '' '' then computeIndent_loop cs cfg (n + 1)
      else if c = HTAB then
        (if strict cfg then Inl TabsInIndentation else computeIndent_loop cs cfg (n + 1))
      else if indentSizeD cfg = 0 then Inl DivideByZero
      else if strict cfg \<and> int n mod indentSizeD cfg \<noteq> 0 then
        Inl (IndentNotMultiple (nat (indentSizeD cfg)))
      else Inr (nat (int n div indentSizeD cfg), c # cs))"

definition computeIndent :: "string \<Rightarrow> decoderOptions \<Rightarrow> error + (nat \<times> string)" where
  "computeIndent line cfg = computeIndent_loop line cfg 0"

text \<open>The loop of \<open>newParser\<close>; \<open>idx\<close> is the index of the first raw line left.\<close>

fun newParser_loop :: "string list \<Rightarrow> decoderOptions \<Rightarrow> nat \<Rightarrow> error + parsedLine list" where
  "newParser_loop [] cfg idx = Inr []"
| "newParser_loop (r # rawLines) cfg idx =
     (if r = [] then
        (case newParser_loop rawLines cfg (idx + 1) of
           Inl err \<Rightarrow> Inl err
         | Inr ls \<Rightarrow>
             Inr (\<lparr>lnumber = idx + 1, lindent = 0, lcontent = [], lraw = [], lblank = True\<rparr> # ls))
      else (case computeIndent r cfg of
              Inl err \<Rightarrow> Inl (errorWrap (idx + 1) err)
            | Inr (ind, cont) \<Rightarrow>
                (case newParser_loop rawLines cfg (idx + 1) of
                   Inl err \<Rightarrow> Inl err
                 | Inr ls \<Rightarrow>
                     Inr (\<lparr>lnumber = idx + 1, lindent = ind, lcontent = cont, lraw = r,
                           lblank = (TrimSpace cont = [])\<rparr> # ls))))"

definition newParser :: "string \<Rightarrow> decoderOptions \<Rightarrow> error + parser" where
  "newParser input cfg =
     (case newParser_loop (splitLines input) cfg 0 of
        Inl err \<Rightarrow> Inl err
      | Inr ls \<Rightarrow> Inr \<lparr>lines = ls, pcfg = cfg\<rparr>)"

text \<open>
  \<open>indexOutsideQuotes\<close>: the index of the first \<open>target\<close> outside quotes, \<open>None\<close>
  for the source's \<open>-1\<close>. \<open>idx\<close> is the index of the first byte left.
\<close>

fun indexOutsideQuotes_loop :: "string \<Rightarrow> char \<Rightarrow> bool \<Rightarrow> bool \<Rightarrow> nat \<Rightarrow> nat option" where
  "indexOutsideQuotes_loop [] target inQuotes escaped idx = None"
| "indexOutsideQuotes_loop (r # rs) target inQuotes escaped idx =
     (if escaped then indexOutsideQuotes_loop rs target inQuotes False (idx + 1)
      else if r = backslash \<and> inQuotes then indexOutsideQuotes_loop rs target inQuotes True (idx + 1)
      else if r = dquote then indexOutsideQuotes_loop rs target (\<not> inQuotes) False (idx + 1)
      else if \<not> inQuotes \<and> r = target then Some idx
      else indexOutsideQuotes_loop rs target inQuotes False (idx + 1))"

definition indexOutsideQuotes :: "string \<Rightarrow> char \<Rightarrow> nat option" where
  "indexOutsideQuotes s target = indexOutsideQuotes_loop s target False False 0"

definition isKeyValue :: "string \<Rightarrow> bool" where
  "isKeyValue cont = (case indexOutsideQuotes cont CHR '':'' of None \<Rightarrow> False | Some i \<Rightarrow> i > 0)"

definition decodeKeyToken :: "string \<Rightarrow> error + string" where
  "decodeKeyToken token =
     (if token = [] then Inl EmptyKey
      else if hd token = dquote then UnquoteString token
      else if \<not> IsValidUnquotedKey token then Inl (InvalidUnquotedKey token)
      else Inr token)"

definition splitKeyValue :: "string \<Rightarrow> error + (string \<times> string)" where
  "splitKeyValue cont =
     (case indexOutsideQuotes cont CHR '':'' of
        None \<Rightarrow> Inl MissingColon
      | Some colon \<Rightarrow>
          (let keyToken = TrimSpace (take colon cont);
               valueToken = TrimSpace (drop (colon + 1) cont)
           in case decodeKeyToken keyToken of
                Inl err \<Rightarrow> Inl err
              | Inr k \<Rightarrow> Inr (k, valueToken)))"

definition hasForbiddenLeadingZeros :: "string \<Rightarrow> bool" where
  "hasForbiddenLeadingZeros token =
     (if length token < 2 then False
      else if token ! 0 \<noteq> CHR ''0'' \<and> (length token \<le> 1 \<or> token ! 0 \<noteq> CHR ''-'' \<or> token ! 1 \<noteq> CHR ''0'')
        then False
      else if ContainsRune token CHR ''.'' \<or> ContainsAny token ''eE'' then False
      else if token ! 0 = CHR ''-'' then length token > 2 \<and> token ! 1 = CHR ''0'' \<and> isDigit (token ! 2)
      else isDigit (token ! 1))"

definition decodePrimitiveToken :: "'f float64 \<Rightarrow> string \<Rightarrow> error + 'f decoded" where
  "decodePrimitiveToken fl token =
     (if token = [] then Inr (DString [])
      else if hd token = dquote then
        (case UnquoteString token of Inl err \<Rightarrow> Inl err | Inr s \<Rightarrow> Inr (DString s))
      else if token = ''true'' then Inr (DBool True)
      else if token = ''false'' then Inr (DBool False)
      else if token = ''null'' then Inr DNil
      else if hasForbiddenLeadingZeros token then Inr (DString token)
      else if LooksNumeric token then
        (case ParseFloat fl token of
           None \<Rightarrow> Inl (ParseFloatError token)
         | Some num \<Rightarrow> Inr (DFloat (if isZero fl num then zero fl else num)))
      else Inr (DString token))"

text \<open>
  The loop of \<open>parseBracketSegment\<close>: \<open>digits\<close> is the builder, \<open>delim\<close> the
  delimiter seen last.
\<close>

fun parseBracketSegment_loop :: "string \<Rightarrow> string \<Rightarrow> Delimiter \<Rightarrow> error + (string \<times> Delimiter)" where
  "parseBracketSegment_loop [] digits delim = Inr (digits, delim)"
| "parseBracketSegment_loop (r # rs) digits delim =
     (if isDigit r then parseBracketSegment_loop rs (digits @ [r]) delim
      else if r = HTAB then parseBracketSegment_loop rs digits DelimiterTab
      else if r = CHR ''|'' then parseBracketSegment_loop rs digits DelimiterPipe
      else Inl (InvalidDelimiterSymbol r))"

text \<open>\<open>strconv.Atoi\<close> on a non-empty string of digits, for a 64-bit \<open>int\<close>.\<close>

definition Atoi :: "string \<Rightarrow> error + nat" where
  "Atoi s = (if decimalValue s > 9223372036854775807 then Inl (AtoiOutOfRange s) else Inr (decimalValue s))"

definition parseBracketSegment :: "string \<Rightarrow> error + (nat \<times> Delimiter)" where
  "parseBracketSegment segment =
     (let segment' = (if HasPrefix segment ''#'' then drop 1 segment else segment)
      in if segment' = [] then Inl MissingArrayLength
         else (case parseBracketSegment_loop segment' [] DelimiterComma of
                 Inl err \<Rightarrow> Inl err
               | Inr (lengthStr, delim) \<Rightarrow>
                   if lengthStr = [] then Inl MissingDigits
                   else (case Atoi lengthStr of
                           Inl err \<Rightarrow> Inl err
                         | Inr len \<Rightarrow> Inr (len, delim))))"

text \<open>The loop that decodes the field names of a header.\<close>

fun decodeKeyTokens :: "string list \<Rightarrow> error + string list" where
  "decodeKeyTokens [] = Inr []"
| "decodeKeyTokens (token # rawFields) =
     (case decodeKeyToken token of
        Inl err \<Rightarrow> Inl err
      | Inr field \<Rightarrow>
          (case decodeKeyTokens rawFields of
             Inl err \<Rightarrow> Inl err
           | Inr flds \<Rightarrow> Inr (field # flds)))"

text \<open>
  \<open>tryParseHeader\<close>: \<open>Inl\<close> is the error, \<open>Inr None\<close> the result \<open>false\<close> (not a
  header), \<open>Inr (Some header)\<close> the result \<open>true\<close>.
\<close>

definition tryParseHeader :: "string \<Rightarrow> error + parsedHeader option" where
  "tryParseHeader cont =
     (case indexOutsideQuotes cont CHR '':'' of
        None \<Rightarrow> Inr None
      | Some colon \<Rightarrow>
          (let left = TrimSpace (take colon cont);
               right = TrimSpace (drop (colon + 1) cont)
           in if left = [] then Inr None
              else (case indexOutsideQuotes left CHR ''['' of
                None \<Rightarrow> Inr None
              | Some bracketStart \<Rightarrow>
                  (let rest = drop (bracketStart + 1) left
                   in case indexOutsideQuotes rest CHR '']'' of
                     None \<Rightarrow> Inl MissingClosingBracket
                   | Some bracketOffset \<Rightarrow>
                       (let keyPart = TrimSpace (take bracketStart left);
                            bracketSegment = take bracketOffset rest;
                            fieldSegment = TrimSpace (drop (bracketOffset + 1) rest)
                        in case (if keyPart \<noteq> [] then decodeKeyToken keyPart else Inr []) of
                          Inl err \<Rightarrow> Inl err
                        | Inr k \<Rightarrow>
                            (case parseBracketSegment bracketSegment of
                               Inl err \<Rightarrow> Inl err
                             | Inr (len, delim) \<Rightarrow>
                                 (case (if fieldSegment \<noteq> [] then
                                          (if \<not> HasPrefix fieldSegment ''{'' \<or> \<not> HasSuffix fieldSegment ''}''
                                           then Inl InvalidFieldSegment
                                           else let inner = butlast (drop 1 fieldSegment)
                                                in if inner \<noteq> [] then
                                                     (case SplitInlineValues inner (rune delim) of
                                                        Inl err \<Rightarrow> Inl err
                                                      | Inr rawFields \<Rightarrow> decodeKeyTokens rawFields)
                                                   else Inr [])
                                        else Inr []) of
                                    Inl err \<Rightarrow> Inl err
                                  | Inr flds \<Rightarrow>
                                      Inr (Some \<lparr>hkey = k, hlength = len, hdelimiter = delim,
                                                 hfields = flds, hinlineValues = right\<rparr>))))))))"

subsection \<open>The parser\<close>

definition current :: "parser \<Rightarrow> nat \<Rightarrow> parsedLine" where
  "current p pos = lines p ! pos"

function skipBlankLinesOutsideArrays :: "parser \<Rightarrow> nat \<Rightarrow> nat" where
  "skipBlankLinesOutsideArrays p pos =
     (if pos < length (lines p) then
        (if \<not> lblank (lines p ! pos) then pos else skipBlankLinesOutsideArrays p (pos + 1))
      else pos)"
  by pat_completeness auto

termination
  by (relation "measure (\<lambda>(p, pos). length (lines p) - pos)") auto

declare skipBlankLinesOutsideArrays.simps [simp del]

definition countRemainingNonBlank :: "parser \<Rightarrow> nat \<Rightarrow> nat" where
  "countRemainingNonBlank p pos = length (filter (\<lambda>line. \<not> lblank line) (drop pos (lines p)))"

text \<open>\<open>nextNonBlankIndent\<close>: \<open>None\<close> is the result \<open>(0, false)\<close>.\<close>

definition nextNonBlankIndent :: "parser \<Rightarrow> nat \<Rightarrow> nat option" where
  "nextNonBlankIndent p from =
     (case filter (\<lambda>line. \<not> lblank line) (drop (from + 1) (lines p)) of
        [] \<Rightarrow> None
      | line # _ \<Rightarrow> Some (lindent line))"

text \<open>The loop that decodes the inline values of a header.\<close>

fun decodeTokens :: "'f float64 \<Rightarrow> string list \<Rightarrow> error + 'f decoded list" where
  "decodeTokens fl [] = Inr []"
| "decodeTokens fl (token # raw) =
     (case decodePrimitiveToken fl token of
        Inl err \<Rightarrow> Inl err
      | Inr v \<Rightarrow>
          (case decodeTokens fl raw of
             Inl err \<Rightarrow> Inl err
           | Inr values \<Rightarrow> Inr (v # values)))"

text \<open>
  The loop that fills one tabular row: it ranges over the fields of the header and stops
  at the first field that has no token.
\<close>

fun decodeRow ::
  "'f float64 \<Rightarrow> string list \<Rightarrow> string list \<Rightarrow> (string \<Rightarrow> 'f decoded option)
    \<Rightarrow> error + (string \<Rightarrow> 'f decoded option)" where
  "decodeRow fl [] raw row = Inr row"
| "decodeRow fl (field # flds) [] row = Inr row"
| "decodeRow fl (field # flds) (token # raw) row =
     (case decodePrimitiveToken fl token of
        Inl err \<Rightarrow> Inl err
      | Inr v \<Rightarrow> decodeRow fl flds raw (row(field \<mapsto> v)))"

text \<open>
  The loop over the rows of a tabular array (the second loop of \<open>parseArray\<close>). It
  returns the rows and the cursor where it stops.
\<close>

function parseTabularRows ::
  "'f float64 \<Rightarrow> parser \<Rightarrow> parsedHeader \<Rightarrow> nat \<Rightarrow> nat \<Rightarrow> 'f decoded list
    \<Rightarrow> error + ('f decoded list \<times> nat)" where
  "parseTabularRows fl p header depth pos rows =
     (if pos < length (lines p) then
        (let line = current p pos in
         if lblank line then
           (if strict (pcfg p) then
              (case nextNonBlankIndent p pos of
                 None \<Rightarrow> Inr (rows, pos)
               | Some nextIndent \<Rightarrow>
                   if nextIndent \<le> depth then Inr (rows, pos)
                   else Inl (errorAt (lnumber line) BlankInsideTabular))
            else parseTabularRows fl p header depth (pos + 1) rows)
         else if lindent line \<le> depth then Inr (rows, pos)
         else if lindent line \<noteq> depth + 1 then Inl (errorAt (lnumber line) InvalidIndentTabularRow)
         else (let trimmed = TrimSpace (lcontent line) in
           if indexOutsideQuotes trimmed CHR '':'' \<noteq> None then Inr (rows, pos)
           else (case SplitInlineValues trimmed (rune (hdelimiter header)) of
                   Inl err \<Rightarrow> Inl (errorWrap (lnumber line) err)
                 | Inr raw \<Rightarrow>
                     if strict (pcfg p) \<and> length raw \<noteq> length (hfields header) then
                       Inl (errorAt (lnumber line) RowWidthMismatch)
                     else (case decodeRow fl (hfields header) raw Map.empty of
                             Inl err \<Rightarrow> Inl (errorWrap (lnumber line) err)
                           | Inr row \<Rightarrow>
                               if strict (pcfg p) \<and> length (rows @ [DMap row]) > hlength header then
                                 Inl (errorAt (lnumber line) (TooManyTabularRows (hlength header)))
                               else parseTabularRows fl p header depth (pos + 1) (rows @ [DMap row])))))
      else Inr (rows, pos))"
  by pat_completeness auto

termination
  by (relation "measure (\<lambda>(fl, p, header, depth, pos, rows). length (lines p) - pos)") auto

declare parseTabularRows.simps [simp del]

text \<open>
  \<open>make([]any, 0, n)\<close> panics when the \<open>n\<close> elements, an interface value taking 16
  bytes, exceed the largest allocation of the runtime, \<open>2 ^ 48\<close> bytes on a 64-bit
  platform. An allocation within this bound is taken to succeed.
\<close>

definition maxSliceCap :: nat where
  "maxSliceCap = 2 ^ 44"

text \<open>
  The mutually recursive methods of the parser. \<open>parseObject_loop\<close> is the loop of
  \<open>parseObject\<close> with the map built so far; \<open>parseListItems\<close> is the third loop of
  \<open>parseArray\<close> with the values so far. Each returns its value and the cursor.
  In \<open>parseArray\<close> the cursor is past the header line, so \<open>pos - 1\<close> is that line.
\<close>

function parseObject_loop ::
  "'f float64 \<Rightarrow> parser \<Rightarrow> nat \<Rightarrow> nat \<Rightarrow> (string \<Rightarrow> 'f decoded option)
    \<Rightarrow> error + ((string \<Rightarrow> 'f decoded option) \<times> nat)"
and parseArray ::
  "'f float64 \<Rightarrow> parser \<Rightarrow> nat \<Rightarrow> parsedHeader \<Rightarrow> nat \<Rightarrow> error + ('f decoded \<times> nat)"
and parseListItems ::
  "'f float64 \<Rightarrow> parser \<Rightarrow> nat \<Rightarrow> parsedHeader \<Rightarrow> nat \<Rightarrow> 'f decoded list
    \<Rightarrow> error + ('f decoded list \<times> nat)"
and collectObjectListSiblings ::
  "'f float64 \<Rightarrow> parser \<Rightarrow> nat \<Rightarrow> (string \<Rightarrow> 'f decoded option) \<Rightarrow> nat
    \<Rightarrow> error + ((string \<Rightarrow> 'f decoded option) \<times> nat)"
where
  "parseObject_loop fl p pos depth result =
     (if pos < length (lines p) then
        (let line = current p pos in
         if lblank line then parseObject_loop fl p (pos + 1) depth result
         else if lindent line < depth then Inr (result, pos)
         else if lindent line > depth then Inl (errorAt (lnumber line) UnexpectedIndentation)
         else (case tryParseHeader (lcontent line) of
                 Inl err \<Rightarrow> Inl (errorWrap (lnumber line) err)
               | Inr (Some header) \<Rightarrow>
                   if hkey header = [] then Inl (errorAt (lnumber line) ArraysNeedKey)
                   else (case parseArray fl p (pos + 1) header depth of
                           Inl err \<Rightarrow> Inl err
                         | Inr (v, pos') \<Rightarrow>
                             parseObject_loop fl p pos' depth (result(hkey header \<mapsto> v)))
               | Inr None \<Rightarrow>
                   (case splitKeyValue (lcontent line) of
                      Inl err \<Rightarrow> Inl (errorWrap (lnumber line) err)
                    | Inr (k, rest) \<Rightarrow>
                        if rest = [] then
                          (case parseObject_loop fl p (pos + 1) (depth + 1) Map.empty of
                             Inl err \<Rightarrow> Inl err
                           | Inr (nextValue, pos') \<Rightarrow>
                               parseObject_loop fl p pos' depth (result(k \<mapsto> DMap nextValue)))
                        else (case decodePrimitiveToken fl rest of
                                Inl err \<Rightarrow> Inl (errorWrap (lnumber line) err)
                              | Inr v \<Rightarrow> parseObject_loop fl p (pos + 1) depth (result(k \<mapsto> v))))))
      else Inr (result, pos))"
| "parseArray fl p pos header depth =
     (if length (hinlineValues header) > 0 then
        (case SplitInlineValues (hinlineValues header) (rune (hdelimiter header)) of
           Inl err \<Rightarrow> Inl (errorWrap (lnumber (lines p ! (pos - 1))) err)
         | Inr raw \<Rightarrow>
             (case decodeTokens fl raw of
                Inl err \<Rightarrow> Inl (errorWrap (lnumber (lines p ! (pos - 1))) err)
              | Inr values \<Rightarrow>
                  if strict (pcfg p) \<and> length values \<noteq> hlength header then
                    Inl (errorAt (lnumber (lines p ! (pos - 1)))
                           (InlineLengthMismatch (hlength header) (length values)))
                  else Inr (DSlice values, pos)))
      else if length (hfields header) > 0 then
        (if hlength header > maxSliceCap then Inl MakeslicePanic
         else (case parseTabularRows fl p header depth pos [] of
                 Inl err \<Rightarrow> Inl err
               | Inr (rows, pos') \<Rightarrow>
                   if strict (pcfg p) \<and> length rows \<noteq> hlength header then
                     Inl (errorAt (lnumber (lines p ! (pos' - 1))) (TabularLengthMismatch (hlength header)))
                   else Inr (DSlice rows, pos')))
      else
        (if hlength header > maxSliceCap then Inl MakeslicePanic
         else (case parseListItems fl p pos header depth [] of
                 Inl err \<Rightarrow> Inl err
               | Inr (values, pos') \<Rightarrow>
                   if strict (pcfg p) \<and> length values \<noteq> hlength header then
                     Inl (errorAt (lnumber (lines p ! (pos' - 1))) (ListLengthMismatch (hlength header)))
                   else Inr (DSlice values, pos'))))"
| "parseListItems fl p pos header depth values =
     (if pos < length (lines p) then
        (let line = current p pos in
         if lblank line then
           (if strict (pcfg p) then
              (case nextNonBlankIndent p pos of
                 None \<Rightarrow> Inr (values, pos)
               | Some nextIndent \<Rightarrow>
                   if nextIndent \<le> depth then Inr (values, pos)
                   else Inl (errorAt (lnumber line) BlankInsideList))
            else parseListItems fl p (pos + 1) header depth values)
         else if lindent line \<le> depth then Inr (values, pos)
         else if lindent line \<noteq> depth + 1 then Inl (errorAt (lnumber line) InvalidIndentListItem)
         else if \<not> HasPrefix (lcontent line) ''-'' then Inr (values, pos)
         else (let itemContent = TrimSpace (drop 1 (lcontent line)) in
           if itemContent = [] then
             parseListItems fl p (pos + 1) header depth (values @ [DMap Map.empty])
           else if HasPrefix itemContent ''['' then
             (case tryParseHeader itemContent of
                Inl err \<Rightarrow> Inl (errorWrap (lnumber line) err)
              | Inr None \<Rightarrow> Inl (errorAt (lnumber line) InvalidHeaderInListItem)
              | Inr (Some itemHeader) \<Rightarrow>
                  (case parseArray fl p (pos + 1) itemHeader (depth + 1) of
                     Inl err \<Rightarrow> Inl err
                   | Inr (itemValue, pos') \<Rightarrow>
                       parseListItems fl p pos' header depth (values @ [itemValue])))
           else
             (case tryParseHeader itemContent of
                Inl err \<Rightarrow> Inl (errorWrap (lnumber line) err)
              | Inr (Some h) \<Rightarrow>
                  if hkey h = [] then Inl (errorAt (lnumber line) ArraysNeedKey)
                  else (case parseArray fl p (pos + 1) h (depth + 1) of
                          Inl err \<Rightarrow> Inl err
                        | Inr (arrayValue, pos') \<Rightarrow>
                            (case collectObjectListSiblings fl p pos' [hkey h \<mapsto> arrayValue] depth of
                               Inl err \<Rightarrow> Inl err
                             | Inr (obj, pos'') \<Rightarrow>
                                 parseListItems fl p pos'' header depth (values @ [DMap obj])))
              | Inr None \<Rightarrow>
                  if isKeyValue itemContent then
                    (case splitKeyValue itemContent of
                       Inl err \<Rightarrow> Inl (errorWrap (lnumber line) err)
                     | Inr (k, rest) \<Rightarrow>
                         if rest = [] then
                           (case parseObject_loop fl p (pos + 1) (depth + 3) Map.empty of
                              Inl err \<Rightarrow> Inl err
                            | Inr (obj, pos') \<Rightarrow>
                                parseListItems fl p pos' header depth (values @ [DMap [k \<mapsto> DMap obj]]))
                         else (case decodePrimitiveToken fl rest of
                                 Inl err \<Rightarrow> Inl (errorWrap (lnumber line) err)
                               | Inr val \<Rightarrow>
                                   (case collectObjectListSiblings fl p (pos + 1) [k \<mapsto> val] depth of
                                      Inl err \<Rightarrow> Inl err
                                    | Inr (obj, pos') \<Rightarrow>
                                        parseListItems fl p pos' header depth (values @ [DMap obj]))))
                  else (case decodePrimitiveToken fl itemContent of
                          Inl err \<Rightarrow> Inl (errorWrap (lnumber line) err)
                        | Inr v \<Rightarrow> parseListItems fl p (pos + 1) header depth (values @ [v])))))
      else Inr (values, pos))"
| "collectObjectListSiblings fl p pos obj depth =
     (if pos < length (lines p) then
        (let next = current p pos in
         if lblank next then
           (if strict (pcfg p) then
              (case nextNonBlankIndent p pos of
                 None \<Rightarrow> Inr (obj, pos)
               | Some nextIndent \<Rightarrow>
                   if nextIndent \<le> depth + 1 then Inr (obj, pos)
                   else Inl (errorAt (lnumber next) BlankInsideObjectListItem))
            else collectObjectListSiblings fl p (pos + 1) obj depth)
         else if lindent next \<le> depth + 1 then Inr (obj, pos)
         else if lindent next \<noteq> depth + 2 then Inl (errorAt (lnumber next) InvalidIndentSibling)
         else (case tryParseHeader (lcontent next) of
                 Inl err \<Rightarrow> Inl (errorWrap (lnumber next) err)
               | Inr (Some header) \<Rightarrow>
                   (case parseArray fl p (pos + 1) header (depth + 1) of
                      Inl err \<Rightarrow> Inl err
                    | Inr (v, pos') \<Rightarrow>
                        if hkey header = [] then Inl (errorAt (lnumber next) ArraysNeedKey)
                        else collectObjectListSiblings fl p pos' (obj(hkey header \<mapsto> v)) depth)
               | Inr None \<Rightarrow>
                   (case splitKeyValue (lcontent next) of
                      Inl err \<Rightarrow> Inl (errorWrap (lnumber next) err)
                    | Inr (k, rest) \<Rightarrow>
                        if rest = [] then
                          (case parseObject_loop fl p (pos + 1) (depth + 3) Map.empty of
                             Inl err \<Rightarrow> Inl err
                           | Inr (nested, pos') \<Rightarrow>
                               collectObjectListSiblings fl p pos' (obj(k \<mapsto> DMap nested)) depth)
                        else (case decodePrimitiveToken fl rest of
                                Inl err \<Rightarrow> Inl (errorWrap (lnumber next) err)
                              | Inr v \<Rightarrow>
                                  collectObjectListSiblings fl p (pos + 1) (obj(k \<mapsto> v)) depth))))
      else Inr (obj, pos))"
  by pat_completeness auto

text \<open>
  The cursor never moves back: every result carries a cursor at or past the one the
  function started from. The termination proof of the parser rests on this fact.
\<close>

definition ge_pos :: "nat \<Rightarrow> error + ('a \<times> nat) \<Rightarrow> bool" where
  "ge_pos q res = (case res of Inl _ \<Rightarrow> True | Inr (_, pos') \<Rightarrow> q \<le> pos')"

lemma ge_pos_Inl: "ge_pos q (Inl e)"
  by (simp add: ge_pos_def)

lemma ge_pos_Inr: "q \<le> pos' \<Longrightarrow> ge_pos q (Inr (v, pos'))"
  by (simp add: ge_pos_def)

lemma ge_pos_result: "r = Inr ba \<Longrightarrow> (v, pos') = ba \<Longrightarrow> ge_pos q r \<Longrightarrow> q \<le> pos'"
  by (auto simp: ge_pos_def)

lemma ge_pos_if: "(c \<Longrightarrow> ge_pos q a) \<Longrightarrow> (\<not> c \<Longrightarrow> ge_pos q b) \<Longrightarrow> ge_pos q (if c then a else b)"
  by simp

lemma ge_pos_let: "(\<And>x. x = e \<Longrightarrow> ge_pos q (f x)) \<Longrightarrow> ge_pos q (Let e f)"
  by simp

lemma ge_pos_sum:
  "(\<And>a. s = Inl a \<Longrightarrow> ge_pos q (f a)) \<Longrightarrow> (\<And>b. s = Inr b \<Longrightarrow> ge_pos q (g b))
    \<Longrightarrow> ge_pos q (case s of Inl a \<Rightarrow> f a | Inr b \<Rightarrow> g b)"
  by (cases s) simp_all

lemma ge_pos_option:
  "(x = None \<Longrightarrow> ge_pos q a) \<Longrightarrow> (\<And>x2. x = Some x2 \<Longrightarrow> ge_pos q (g x2))
    \<Longrightarrow> ge_pos q (case x of None \<Rightarrow> a | Some x2 \<Rightarrow> g x2)"
  by (cases x) simp_all

lemma ge_pos_prod:
  "(\<And>a b. (a, b) = pr \<Longrightarrow> ge_pos q (f a b)) \<Longrightarrow> ge_pos q (case pr of (a, b) \<Rightarrow> f a b)"
  by (cases pr) simp_all

lemmas ge_pos_rules =
  ge_pos_Inl ge_pos_if ge_pos_let ge_pos_sum ge_pos_option ge_pos_prod

lemma parseTabularRows_mono:
  "q \<le> pos \<Longrightarrow> ge_pos q (parseTabularRows fl p header depth pos rows)"
proof (induct fl p header depth pos rows arbitrary: q rule: parseTabularRows.induct)
  case (1 fl p header depth pos rows)
  have le: "q \<le> pos + 1" using "1.prems" by simp
  show ?case
    apply (subst parseTabularRows.simps)
    apply (intro ge_pos_rules;
            ((rule ge_pos_Inr, rule "1.prems") | (rule "1.hyps"; (assumption | rule le))))
    done
qed

lemma parser_mono_partial:
  "parseObject_loop_parseArray_parseListItems_collectObjectListSiblings_dom (Inl (Inl (fl, p, pos, depth, result)))
    \<Longrightarrow> q1 \<le> pos \<Longrightarrow> ge_pos q1 (parseObject_loop fl p pos depth result)"
  "parseObject_loop_parseArray_parseListItems_collectObjectListSiblings_dom (Inl (Inr (fl, p, pos, header, depth)))
    \<Longrightarrow> q2 \<le> pos \<Longrightarrow> ge_pos q2 (parseArray fl p pos header depth)"
  "parseObject_loop_parseArray_parseListItems_collectObjectListSiblings_dom (Inr (Inl (fl, p, pos, header, depth, vals)))
    \<Longrightarrow> q3 \<le> pos \<Longrightarrow> ge_pos q3 (parseListItems fl p pos header depth vals)"
  "parseObject_loop_parseArray_parseListItems_collectObjectListSiblings_dom (Inr (Inr (fl, p, pos, obj, depth)))
    \<Longrightarrow> q4 \<le> pos \<Longrightarrow> ge_pos q4 (collectObjectListSiblings fl p pos obj depth)"
proof (induct fl p pos depth result and fl p pos header depth and fl p pos header depth vals
        and fl p pos obj depth arbitrary: q1 and q2 and q3 and q4
        rule: parseObject_loop_parseArray_parseListItems_collectObjectListSiblings.pinduct)
  case (1 fl p pos depth result)
  have le: "q1 \<le> pos + 1" using "1.prems" by simp
  show ?case
    apply (subst parseObject_loop.psimps[OF "1.hyps"(1)])
    apply (intro ge_pos_rules;
            ((rule ge_pos_Inr, rule "1.prems")
             | (rule "1.hyps";
                 (assumption | rule le
                  | (erule ge_pos_result, assumption, rule "1.hyps"; (assumption | rule le))))))
    done
next
  case (2 fl p pos header depth)
  show ?case
    apply (subst parseArray.psimps[OF "2.hyps"(1)])
    apply (intro ge_pos_rules;
            ((rule ge_pos_Inr, rule "2.prems")
             | (rule ge_pos_Inr, erule ge_pos_result, assumption,
                 ((rule parseTabularRows_mono, rule "2.prems")
                  | (rule "2.hyps"; (assumption | rule "2.prems"))))))
    done
next
  case (3 fl p pos header depth vals)
  have le: "q3 \<le> pos + 1" using "3.prems" by simp
  show ?case
    apply (subst parseListItems.psimps[OF "3.hyps"(1)])
    apply (intro ge_pos_rules;
            ((rule ge_pos_Inr, rule "3.prems")
             | (rule "3.hyps";
                 (assumption | rule le
                  | (erule ge_pos_result, assumption, rule "3.hyps";
                      (assumption | rule le
                       | (erule ge_pos_result, assumption, rule "3.hyps"; (assumption | rule le))))))))
    done
next
  case (4 fl p pos obj depth)
  have le: "q4 \<le> pos + 1" using "4.prems" by simp
  show ?case
    apply (subst collectObjectListSiblings.psimps[OF "4.hyps"(1)])
    apply (intro ge_pos_rules;
            ((rule ge_pos_Inr, rule "4.prems")
             | (rule "4.hyps";
                 (assumption | rule le
                  | (erule ge_pos_result, assumption, rule "4.hyps"; (assumption | rule le))))))
    done
qed

lemma parser_mono_dom:
  "parseObject_loop_parseArray_parseListItems_collectObjectListSiblings_dom (Inl (Inl (fl, p, pos, depth, result)))
    \<Longrightarrow> parseObject_loop fl p pos depth result = Inr (r, pos1) \<Longrightarrow> pos \<le> pos1"
  "parseObject_loop_parseArray_parseListItems_collectObjectListSiblings_dom (Inl (Inr (fl, p, pos, header, depth)))
    \<Longrightarrow> parseArray fl p pos header depth = Inr (v, pos2) \<Longrightarrow> pos \<le> pos2"
  "parseObject_loop_parseArray_parseListItems_collectObjectListSiblings_dom (Inr (Inl (fl, p, pos, header, depth, vals)))
    \<Longrightarrow> parseListItems fl p pos header depth vals = Inr (vs, pos3) \<Longrightarrow> pos \<le> pos3"
  "parseObject_loop_parseArray_parseListItems_collectObjectListSiblings_dom (Inr (Inr (fl, p, pos, obj, depth)))
    \<Longrightarrow> collectObjectListSiblings fl p pos obj depth = Inr (ob, pos4) \<Longrightarrow> pos \<le> pos4"
  using parser_mono_partial(1)[of fl p pos depth result pos]
        parser_mono_partial(2)[of fl p pos header depth pos]
        parser_mono_partial(3)[of fl p pos header depth vals pos]
        parser_mono_partial(4)[of fl p pos obj depth pos]
  by (simp_all add: ge_pos_def)

termination parseObject_loop
proof (relation "measure (case_sum
     (case_sum (\<lambda>(fl, p, pos, depth, result). 2 * (length (lines p) - pos))
               (\<lambda>(fl, p, pos, header, depth). 2 * (length (lines p) - pos) + 1))
     (case_sum (\<lambda>(fl, p, pos, header, depth, vals). 2 * (length (lines p) - pos))
               (\<lambda>(fl, p, pos, obj, depth). 2 * (length (lines p) - pos))))",
    goal_cases)
qed (auto dest!: parser_mono_dom)

declare parseObject_loop.simps [simp del] parseArray.simps [simp del]
  parseListItems.simps [simp del] collectObjectListSiblings.simps [simp del]

text \<open>
  A header without inline values whose declared length is beyond the bound: the slice of
  the result cannot be made, whatever the lines that follow.
\<close>

lemma parseArray_cap_out_of_range:
  "hinlineValues header = [] \<Longrightarrow> hlength header > maxSliceCap \<Longrightarrow>
   parseArray fl p pos header depth = Inl MakeslicePanic"
  by (simp add: parseArray.simps)

definition parseObject ::
  "'f float64 \<Rightarrow> parser \<Rightarrow> nat \<Rightarrow> nat \<Rightarrow> error + ((string \<Rightarrow> 'f decoded option) \<times> nat)" where
  "parseObject fl p pos depth = parseObject_loop fl p pos depth Map.empty"

text \<open>
  \<open>parseDocument\<close> starts with the cursor at 0 and returns the value alone: lines left
  after the root value are not read.
\<close>

definition parseDocument :: "'f float64 \<Rightarrow> parser \<Rightarrow> error + 'f decoded" where
  "parseDocument fl p =
     (let pos = skipBlankLinesOutsideArrays p 0 in
      if pos \<ge> length (lines p) then Inr (DMap Map.empty)
      else
        (let nonBlank = countRemainingNonBlank p pos;
             first = current p pos
         in case tryParseHeader (lcontent first) of
              Inl err \<Rightarrow> Inl (errorWrap (lnumber first) err)
            | Inr hdr \<Rightarrow>
                if nonBlank = 1 \<and> hdr = None \<and> \<not> isKeyValue (lcontent first) then
                  (case decodePrimitiveToken fl (TrimSpace (lcontent first)) of
                     Inl err \<Rightarrow> Inl (errorWrap (lnumber first) err)
                   | Inr v \<Rightarrow> Inr v)
                else
                  (case hdr of
                     Some header \<Rightarrow>
                       if lindent first = 0 \<and> hkey header = [] then
                         (case parseArray fl p (pos + 1) header 0 of
                            Inl err \<Rightarrow> Inl err
                          | Inr (v, _) \<Rightarrow> Inr v)
                       else
                         (case parseObject fl p pos 0 of
                            Inl err \<Rightarrow> Inl err
                          | Inr (obj, _) \<Rightarrow> Inr (DMap obj))
                   | None \<Rightarrow>
                       (case parseObject fl p pos 0 of
                          Inl err \<Rightarrow> Inl err
                        | Inr (obj, _) \<Rightarrow> Inr (DMap obj)))))"

text \<open>\<open>Decoder.Decode\<close>.\<close>

definition Decode :: "'f float64 \<Rightarrow> decoderOptions \<Rightarrow> string \<Rightarrow> error + 'f decoded" where
  "Decode fl cfg data =
     (case newParser data cfg of
        Inl err \<Rightarrow> Inl err
      | Inr p \<Rightarrow> parseDocument fl p)"

subsection \<open>An instance of the float64 operations on integer literals\<close>

text \<open>
  For the concrete examples below a \<open>float64\<close> that holds an integer is represented by
  that integer. \<open>ParseFloat\<close> of this instance reads a literal made of an optional
  minus sign and digits and rounds it to the nearest value with a 53-bit significand,
  ties to even; a literal of at least \<open>2 ^ 1024\<close> is out of range, an error of
  \<open>strconv.ParseFloat\<close>. Every other literal is outside the instance, which answers
  \<open>None\<close> for it, and the examples use none. \<open>FormatFloat\<close> is the decimal numeral,
  which is the shortest decimal that reads back to the same value up to a magnitude of
  \<open>2 ^ 53\<close>.
\<close>

fun bitLength :: "nat \<Rightarrow> nat" where
  "bitLength n = (if n = 0 then 0 else Suc (bitLength (n div 2)))"

declare bitLength.simps [simp del]

definition roundToFloat64 :: "nat \<Rightarrow> nat" where
  "roundToFloat64 n =
     (if bitLength n \<le> 53 then n
      else let e = bitLength n - 53; q = n div 2 ^ e; r = n mod 2 ^ e
           in if r > 2 ^ (e - 1) \<or> (r = 2 ^ (e - 1) \<and> odd q) then (q + 1) * 2 ^ e else q * 2 ^ e)"

definition parseIntegerLiteral :: "string \<Rightarrow> int option" where
  "parseIntegerLiteral s =
     (let neg = (s \<noteq> [] \<and> hd s = CHR ''-''); ds = (if neg then tl s else s)
      in if ds = [] \<or> \<not> (\<forall>c \<in> set ds. isDigit c) then None
         else if roundToFloat64 (decimalValue ds) \<ge> 2 ^ 1024 then None
         else Some (if neg then - int (roundToFloat64 (decimalValue ds))
                    else int (roundToFloat64 (decimalValue ds))))"

definition integerFloat64 :: "int float64" where
  "integerFloat64 =
     \<lparr>ParseFloat = parseIntegerLiteral, FormatFloat = FormatInt, IsNaN = (\<lambda>f. False),
      IsInf = (\<lambda>f. False), isZero = (\<lambda>f. f = 0), zero = 0\<rparr>"

subsection \<open>The options a caller can build\<close>

text \<open>
  The option types are functions on the unexported configuration structs, so a caller
  outside the package builds an option only with one of the constructors.
\<close>

definition EncoderOptionSet :: "('t encoderOptions \<Rightarrow> 't encoderOptions) set" where
  "EncoderOptionSet =
     range WithIndent \<union> range WithDocumentDelimiter \<union> range WithArrayDelimiter
       \<union> range WithLengthMarkers \<union> range WithTimeFormatter"

definition DecoderOptionSet :: "(decoderOptions \<Rightarrow> decoderOptions) set" where
  "DecoderOptionSet =
     range WithStrictMode \<union> range WithDecoderIndent \<union> range WithDecoderDocumentDelimiter"

definition validDelimiters :: "Delimiter set" where
  "validDelimiters = {DelimiterComma, DelimiterTab, DelimiterPipe}"

section \<open>Properties\<close>

subsection \<open>Configuration invariant\<close>

lemma encoder_option_keeps:
  assumes "opt \<in> EncoderOptionSet"
    and "1 \<le> indentSize cfg" "documentDelimiter cfg \<in> validDelimiters" "arrayDelimiter cfg \<in> validDelimiters"
  shows "1 \<le> indentSize (opt cfg) \<and> documentDelimiter (opt cfg) \<in> validDelimiters
         \<and> arrayDelimiter (opt cfg) \<in> validDelimiters"
  using assms
  by (auto simp: EncoderOptionSet_def validDelimiters_def WithIndent_def WithDocumentDelimiter_def
      WithArrayDelimiter_def WithLengthMarkers_def WithTimeFormatter_def split: option.splits if_splits)

lemma encoder_options_fold:
  assumes "set opts \<subseteq> EncoderOptionSet"
    and "1 \<le> indentSize cfg" "documentDelimiter cfg \<in> validDelimiters" "arrayDelimiter cfg \<in> validDelimiters"
  shows "1 \<le> indentSize (foldl (\<lambda>c opt. opt c) cfg opts)
         \<and> documentDelimiter (foldl (\<lambda>c opt. opt c) cfg opts) \<in> validDelimiters
         \<and> arrayDelimiter (foldl (\<lambda>c opt. opt c) cfg opts) \<in> validDelimiters"
  using assms
proof (induction opts arbitrary: cfg)
  case Nil
  then show ?case by simp
next
  case (Cons opt opts)
  have "opt \<in> EncoderOptionSet" using Cons.prems(1) by simp
  from encoder_option_keeps[OF this Cons.prems(2-4)] Cons.prems(1) show ?case
    by (simp add: Cons.IH)
qed

lemma decoder_option_keeps:
  assumes "opt \<in> DecoderOptionSet" and "1 \<le> indentSizeD cfg" "documentDelim cfg \<in> validDelimiters"
  shows "1 \<le> indentSizeD (opt cfg) \<and> documentDelim (opt cfg) \<in> validDelimiters"
  using assms
  by (auto simp: DecoderOptionSet_def validDelimiters_def WithStrictMode_def WithDecoderIndent_def
      WithDecoderDocumentDelimiter_def split: if_splits)

lemma decoder_options_fold:
  assumes "set opts \<subseteq> DecoderOptionSet" and "1 \<le> indentSizeD cfg" "documentDelim cfg \<in> validDelimiters"
  shows "1 \<le> indentSizeD (foldl (\<lambda>c opt. opt c) cfg opts)
         \<and> documentDelim (foldl (\<lambda>c opt. opt c) cfg opts) \<in> validDelimiters"
  using assms
proof (induction opts arbitrary: cfg)
  case Nil
  then show ?case by simp
next
  case (Cons opt opts)
  have "opt \<in> DecoderOptionSet" using Cons.prems(1) by simp
  from decoder_option_keeps[OF this Cons.prems(2-3)] Cons.prems(1) show ?case
    by (simp add: Cons.IH)
qed

text \<open>
  Claim C9. Every encoder or decoder configuration built from any sequence of options has
  an indent size of at least 1 and delimiters among comma, tab and pipe; a non-positive
  indent and an unrecognised delimiter leave the configuration as it was.
\<close>

theorem options_invariant:
  "(set eopts \<subseteq> EncoderOptionSet \<longrightarrow>
      1 \<le> indentSize (NewEncoder rfc3339 eopts)
      \<and> documentDelimiter (NewEncoder rfc3339 eopts) \<in> validDelimiters
      \<and> arrayDelimiter (NewEncoder rfc3339 eopts) \<in> validDelimiters)
   \<and> (set dopts \<subseteq> DecoderOptionSet \<longrightarrow>
      1 \<le> indentSizeD (NewDecoder dopts) \<and> documentDelim (NewDecoder dopts) \<in> validDelimiters)
   \<and> (spaces \<le> 0 \<longrightarrow> WithIndent spaces ecfg = ecfg \<and> WithDecoderIndent spaces dcfg = dcfg)
   \<and> (d \<notin> validDelimiters \<longrightarrow>
      WithDocumentDelimiter d ecfg = ecfg \<and> WithArrayDelimiter d ecfg = ecfg
      \<and> WithDecoderDocumentDelimiter d dcfg = dcfg)"
proof (intro conjI impI)
  assume e: "set eopts \<subseteq> EncoderOptionSet"
  have "1 \<le> indentSize (NewEncoder rfc3339 eopts)
      \<and> documentDelimiter (NewEncoder rfc3339 eopts) \<in> validDelimiters
      \<and> arrayDelimiter (NewEncoder rfc3339 eopts) \<in> validDelimiters"
    unfolding NewEncoder_def
    by (rule encoder_options_fold[OF e]) (simp_all add: defaultEncoderOptions_def validDelimiters_def)
  then show "1 \<le> indentSize (NewEncoder rfc3339 eopts)"
    and "documentDelimiter (NewEncoder rfc3339 eopts) \<in> validDelimiters"
    and "arrayDelimiter (NewEncoder rfc3339 eopts) \<in> validDelimiters" by simp_all
next
  assume d: "set dopts \<subseteq> DecoderOptionSet"
  have "1 \<le> indentSizeD (NewDecoder dopts) \<and> documentDelim (NewDecoder dopts) \<in> validDelimiters"
    unfolding NewDecoder_def
    by (rule decoder_options_fold[OF d]) (simp_all add: defaultDecoderOptions_def validDelimiters_def)
  then show "1 \<le> indentSizeD (NewDecoder dopts)"
    and "documentDelim (NewDecoder dopts) \<in> validDelimiters" by simp_all
next
  assume "spaces \<le> 0"
  then show "WithIndent spaces ecfg = ecfg" and "WithDecoderIndent spaces dcfg = dcfg"
    by (simp_all add: WithIndent_def WithDecoderIndent_def)
next
  assume "d \<notin> validDelimiters"
  then show "WithDocumentDelimiter d ecfg = ecfg" and "WithArrayDelimiter d ecfg = ecfg"
    and "WithDecoderDocumentDelimiter d dcfg = dcfg"
    by (simp_all add: validDelimiters_def WithDocumentDelimiter_def WithArrayDelimiter_def
        WithDecoderDocumentDelimiter_def)
qed

theorem options_invariant_witness:
  "1 \<le> indentSize (NewEncoder (\<lambda>t::unit. ''time'')
          [WithIndent 0, WithDocumentDelimiter 59, WithIndent 4, WithArrayDelimiter DelimiterPipe, WithIndent (- 1)])
   \<and> indentSize (NewEncoder (\<lambda>t::unit. ''time'')
          [WithIndent 0, WithDocumentDelimiter 59, WithIndent 4, WithArrayDelimiter DelimiterPipe, WithIndent (- 1)]) = 4
   \<and> documentDelimiter (NewEncoder (\<lambda>t::unit. ''time'')
          [WithIndent 0, WithDocumentDelimiter 59, WithIndent 4, WithArrayDelimiter DelimiterPipe, WithIndent (- 1)])
        = DelimiterComma
   \<and> 1 \<le> indentSizeD (NewDecoder [WithDecoderIndent 0, WithDecoderDocumentDelimiter 59, WithStrictMode False])
   \<and> documentDelim (NewDecoder [WithDecoderIndent 0, WithDecoderDocumentDelimiter 59, WithStrictMode False])
        \<in> validDelimiters
   \<and> WithIndent 0 (defaultEncoderOptions (\<lambda>t::unit. ''time'')) = defaultEncoderOptions (\<lambda>t::unit. ''time'')
   \<and> WithDecoderDocumentDelimiter 59 defaultDecoderOptions = defaultDecoderOptions"
  using options_invariant[of "[WithIndent 0, WithDocumentDelimiter 59, WithIndent 4, WithArrayDelimiter DelimiterPipe, WithIndent (- 1)]"
      "\<lambda>t::unit. ''time''" "[WithDecoderIndent 0, WithDecoderDocumentDelimiter 59, WithStrictMode False]"
      0 "defaultEncoderOptions (\<lambda>t::unit. ''time'')" defaultDecoderOptions 59]
  by (simp add: EncoderOptionSet_def DecoderOptionSet_def validDelimiters_def
      DelimiterComma_def DelimiterTab_def DelimiterPipe_def NewEncoder_def defaultEncoderOptions_def
      WithIndent_def WithDocumentDelimiter_def WithArrayDelimiter_def)


subsection \<open>The empty document\<close>

lemma skipBlank_all_blank:
  "\<forall>l \<in> set (drop pos (lines p)). lblank l \<Longrightarrow> pos \<le> length (lines p)
    \<Longrightarrow> skipBlankLinesOutsideArrays p pos = length (lines p)"
proof (induction p pos rule: skipBlankLinesOutsideArrays.induct)
  case (1 p pos)
  show ?case
  proof (cases "pos < length (lines p)")
    case True
    then have here: "lblank (lines p ! pos)"
      using "1.prems"(1) by (metis Cons_nth_drop_Suc list.set_intros(1))
    have rest: "\<forall>l \<in> set (drop (pos + 1) (lines p)). lblank l"
      using "1.prems"(1) True by (metis Cons_nth_drop_Suc Suc_eq_plus1 list.set_intros(2))
    from True here have "skipBlankLinesOutsideArrays p (pos + 1) = length (lines p)"
      using "1.IH" rest by simp
    with True here show ?thesis
      by (subst skipBlankLinesOutsideArrays.simps) simp
  next
    case False
    with "1.prems"(2) show ?thesis
      by (subst skipBlankLinesOutsideArrays.simps) simp
  qed
qed

lemma parseDocument_all_blank:
  assumes "\<forall>l \<in> set (lines p). lblank l"
  shows "parseDocument fl p = Inr (DMap Map.empty)"
proof -
  have "skipBlankLinesOutsideArrays p 0 = length (lines p)"
    using assms by (intro skipBlank_all_blank) simp_all
  then show ?thesis by (simp add: parseDocument_def)
qed

lemma ReplaceAll_crlf_no_CR: "CR \<notin> set s \<Longrightarrow> ReplaceAll_crlf s = s"
  by (induction s rule: ReplaceAll_crlf.induct) auto

lemma Split_nl_spaces:
  "set s \<subseteq> {CHR '' '', LF} \<Longrightarrow> \<forall>r \<in> set (Split_nl s). set r \<subseteq> {CHR '' ''}"
proof (induction s)
  case Nil
  then show ?case by simp
next
  case (Cons c s)
  then show ?case by (cases "Split_nl s") auto
qed

lemma computeIndent_loop_spaces:
  "set r \<subseteq> {CHR '' ''} \<Longrightarrow> computeIndent_loop r cfg n = Inr (0, [])"
  by (induction r arbitrary: n) auto

lemma newParser_loop_spaces:
  "\<forall>r \<in> set rawLines. set r \<subseteq> {CHR '' ''}
    \<Longrightarrow> \<exists>ls. newParser_loop rawLines cfg idx = Inr ls \<and> (\<forall>l \<in> set ls. lblank l)"
proof (induction rawLines arbitrary: idx)
  case Nil
  then show ?case by simp
next
  case (Cons r rawLines)
  then obtain ls where ls: "newParser_loop rawLines cfg (idx + 1) = Inr ls" "\<forall>l \<in> set ls. lblank l"
    by (metis list.set_intros(2))
  have r: "computeIndent r cfg = Inr (0, [])"
    using Cons.prems by (simp add: computeIndent_def computeIndent_loop_spaces)
  show ?case using ls r by (simp add: TrimSpace_def)
qed

lemma Decode_blank_document:
  assumes "set data \<subseteq> {CHR '' '', LF}"
  shows "Decode fl cfg data = Inr (DMap Map.empty)"
proof -
  have "CR \<notin> set data" using assms by auto
  then have "\<forall>r \<in> set (Split_nl (ReplaceAll_crlf data)). set r \<subseteq> {CHR '' ''}"
    using Split_nl_spaces[OF assms] by (simp add: ReplaceAll_crlf_no_CR)
  then have "\<forall>r \<in> set (splitLines data). set r \<subseteq> {CHR '' ''}"
    by (auto simp: splitLines_def Let_def dest: in_set_butlastD)
  from newParser_loop_spaces[OF this, of cfg 0]
  obtain ls where "newParser_loop (splitLines data) cfg 0 = Inr ls" "\<forall>l \<in> set ls. lblank l"
    by blast
  then show ?thesis
    by (simp add: Decode_def newParser_def parseDocument_all_blank)
qed

text \<open>
  Claim C7. An empty ordered object at the root encodes to the empty document (no bytes).
  Decoding the empty document yields an empty object, and so does decoding a document
  of blank lines only: one made of spaces and line feeds, or more generally one whose
  preprocessed lines are all marked blank.
\<close>

theorem empty_document:
  "Marshal fl ecfg (HObject []) = Inr []
   \<and> Decode fl dcfg [] = Inr (DMap Map.empty)
   \<and> (set data \<subseteq> {CHR '' '', LF} \<longrightarrow> Decode fl dcfg data = Inr (DMap Map.empty))
   \<and> ((\<forall>l \<in> set (lines p). lblank l) \<longrightarrow> parseDocument fl p = Inr (DMap Map.empty))"
  by (simp add: Marshal_def encodeRoot_def encodeObject.simps Decode_blank_document
      parseDocument_all_blank)

theorem empty_document_witness:
  "Marshal integerFloat64 (defaultEncoderOptions (\<lambda>t::unit. ''time'')) (HObject []) = Inr []
   \<and> Decode integerFloat64 defaultDecoderOptions [] = Inr (DMap Map.empty)
   \<and> Decode integerFloat64 defaultDecoderOptions [LF, CHR '' '', CHR '' '', LF, LF] = Inr (DMap Map.empty)
   \<and> parseDocument integerFloat64
        \<lparr>lines = [\<lparr>lnumber = 1, lindent = 0, lcontent = [], lraw = [], lblank = True\<rparr>],
         pcfg = defaultDecoderOptions\<rparr> = Inr (DMap Map.empty)"
  using empty_document[of integerFloat64 "defaultEncoderOptions (\<lambda>t::unit. ''time'')"
      defaultDecoderOptions "[LF, CHR '' '', CHR '' '', LF, LF]"
      "\<lparr>lines = [\<lparr>lnumber = 1, lindent = 0, lcontent = [], lraw = [], lblank = True\<rparr>],
         pcfg = defaultDecoderOptions\<rparr>"]
  by simp

subsection \<open>Unfolding the codec on a concrete input\<close>

lemmas string_defs = isDigit_def IsLetter_def isSpace_def TrimSpace_def HasPrefix_def HasSuffix_def
  digitChar_def digitVal_def decimalValue_def Itoa.simps ContainsAny_def ContainsRune_def

lemmas decoder_defs = Decode_def newParser_def splitLines_def computeIndent_def
  parseDocument_def parseObject_def current_def countRemainingNonBlank_def nextNonBlankIndent_def
  skipBlankLinesOutsideArrays.simps parseTabularRows.simps parseObject_loop.simps parseArray.simps
  parseListItems.simps collectObjectListSiblings.simps tryParseHeader_def parseBracketSegment_def
  Atoi_def indexOutsideQuotes_def isKeyValue_def decodeKeyToken_def splitKeyValue_def
  hasForbiddenLeadingZeros_def decodePrimitiveToken_def UnquoteString_def SplitInlineValues_def
  IsValidUnquotedKey_def LooksNumeric_def skipFraction_def skipExponent_def
  errorAt_def errorWrap_def rune_def DelimiterComma_def DelimiterTab_def DelimiterPipe_def
  defaultDecoderOptions_def WithStrictMode_def WithDecoderIndent_def NewDecoder_def
  integerFloat64_def parseIntegerLiteral_def roundToFloat64_def bitLength.simps Let_def
  maxSliceCap_def

lemma replicate_numeral_Cons: "replicate (numeral k) x = x # replicate (pred_numeral k) x"
  by (simp add: numeral_eq_Suc)

lemmas encoder_defs = replicate_numeral_Cons Marshal_def encodeRoot_def encodeObject.simps encodeObjectFields.simps
  encodeArray.simps encodeArrayItems.simps encodeArrayItem.simps encodeListItem.simps
  encodeObjectListItem.simps encodeArrayForObjectListItem.simps encodeListItems.simps
  inlineLine_def renderHeader_def indent_def andThen_def encodeKey_def EncodeKey_def
  IsValidUnquotedKey_def QuoteString_def FormatString_def NeedsQuoting_def LooksNumeric_def
  skipFraction_def skipExponent_def HasLeadingZeroDecimal_def toInternal_def
  isPrimitiveArray_def detectTabular_def tabularRow_def normalizeInt_def normalizeFloat_def
  normalizeNumberString_def FormatInt_def maxSafeInteger_def SortFunc_Key_def
  defaultEncoderOptions_def NewEncoder_def rune_def DelimiterComma_def DelimiterTab_def
  DelimiterPipe_def integerFloat64_def parseIntegerLiteral_def roundToFloat64_def bitLength.simps
  Let_def

subsection \<open>Inline values and the declared length\<close>

lemma decodeTokens_length: "decodeTokens fl raw = Inr vs \<Longrightarrow> length vs = length raw"
  by (induction raw arbitrary: vs) (auto split: sum.splits)

text \<open>
  Claim C6. For an array header that carries inline values which tokenize and decode:
  in strict mode \<open>parseArray\<close> returns the length-mismatch error exactly when the number
  of inline tokens differs from the declared length, and the decoded sequence otherwise;
  in lenient mode it returns the sequence of all decoded values whatever the declared
  length. The witness decodes \<open>items[2]: 1,2,3\<close> in both modes.
\<close>

theorem inline_length_check:
  assumes "hinlineValues header \<noteq> []"
    and "SplitInlineValues (hinlineValues header) (rune (hdelimiter header)) = Inr raw"
    and "decodeTokens fl raw = Inr vs"
  shows "length vs = length raw
    \<and> (strict (pcfg p) \<longrightarrow>
         ((parseArray fl p pos header depth
            = Inl (errorAt (lnumber (lines p ! (pos - 1)))
                     (InlineLengthMismatch (hlength header) (length raw))))
          = (length raw \<noteq> hlength header))
         \<and> (length raw = hlength header \<longrightarrow> parseArray fl p pos header depth = Inr (DSlice vs, pos)))
    \<and> (\<not> strict (pcfg p) \<longrightarrow> parseArray fl p pos header depth = Inr (DSlice vs, pos))"
  using assms decodeTokens_length[OF assms(3)]
  by (simp add: parseArray.simps)

theorem inline_length_check_witness:
  "parseArray integerFloat64
      \<lparr>lines = [\<lparr>lnumber = 1, lindent = 0, lcontent = ''items[2]: 1,2,3'', lraw = ''items[2]: 1,2,3'',
                 lblank = False\<rparr>],
       pcfg = defaultDecoderOptions\<rparr> 1
      \<lparr>hkey = ''items'', hlength = 2, hdelimiter = DelimiterComma, hfields = [], hinlineValues = ''1,2,3''\<rparr> 0
     = Inl (parseError 1 (InlineLengthMismatch 2 3))
   \<and> parseArray integerFloat64
      \<lparr>lines = [\<lparr>lnumber = 1, lindent = 0, lcontent = ''items[2]: 1,2,3'', lraw = ''items[2]: 1,2,3'',
                 lblank = False\<rparr>],
       pcfg = WithStrictMode False defaultDecoderOptions\<rparr> 1
      \<lparr>hkey = ''items'', hlength = 2, hdelimiter = DelimiterComma, hfields = [], hinlineValues = ''1,2,3''\<rparr> 0
     = Inr (DSlice [DFloat 1, DFloat 2, DFloat 3], 1)
   \<and> Decode integerFloat64 defaultDecoderOptions ''items[2]: 1,2,3''
     = Inl (parseError 1 (InlineLengthMismatch 2 3))
   \<and> Decode integerFloat64 (WithStrictMode False defaultDecoderOptions) ''items[2]: 1,2,3''
     = Inr (DMap [''items'' \<mapsto> DSlice [DFloat 1, DFloat 2, DFloat 3]])"
proof -
  let ?h = "\<lparr>hkey = ''items'', hlength = 2, hdelimiter = DelimiterComma, hfields = [],
             hinlineValues = ''1,2,3''\<rparr>"
  let ?ls = "[\<lparr>lnumber = 1, lindent = 0, lcontent = ''items[2]: 1,2,3'', lraw = ''items[2]: 1,2,3'',
                 lblank = False\<rparr>]"
  have a: "hinlineValues ?h \<noteq> []" by simp
  have b: "SplitInlineValues (hinlineValues ?h) (rune (hdelimiter ?h)) = Inr [''1'', ''2'', ''3'']"
    by (simp add: decoder_defs string_defs)
  have c: "decodeTokens integerFloat64 [''1'', ''2'', ''3''] = Inr [DFloat 1, DFloat 2, DFloat 3]"
    by (simp add: decoder_defs string_defs)
  have d: "Decode integerFloat64 defaultDecoderOptions ''items[2]: 1,2,3''
     = Inl (parseError 1 (InlineLengthMismatch 2 3))"
    by (simp add: decoder_defs string_defs)
  have e: "Decode integerFloat64 (WithStrictMode False defaultDecoderOptions) ''items[2]: 1,2,3''
     = Inr (DMap [''items'' \<mapsto> DSlice [DFloat 1, DFloat 2, DFloat 3]])"
    by (simp add: decoder_defs string_defs)
  show ?thesis
    using inline_length_check[OF a b c, of "\<lparr>lines = ?ls, pcfg = defaultDecoderOptions\<rparr>" 1 0]
      inline_length_check[OF a b c, of "\<lparr>lines = ?ls, pcfg = WithStrictMode False defaultDecoderOptions\<rparr>" 1 0]
      d e
    by (simp add: defaultDecoderOptions_def WithStrictMode_def errorAt_def)
qed

subsection \<open>Tabular rows in lenient mode\<close>

lemma decodeRow_dom:
  "decodeRow fl flds raw m = Inr row \<Longrightarrow> dom row = dom m \<union> set (take (length raw) flds)"
  by (induction fl flds raw m rule: decodeRow.induct) (auto split: sum.splits)

lemma decodeRow_surplus:
  "decodeRow fl flds (take (length flds) raw) m = decodeRow fl flds raw m"
proof (induction fl flds raw m rule: decodeRow.induct)
  case (3 fl field flds token raw row)
  show ?case
  proof (cases "decodePrimitiveToken fl token")
    case (Inl err)
    then show ?thesis by simp
  next
    case (Inr v)
    from "3.IH"[OF Inr] Inr show ?thesis by (simp add: fun_upd_def)
  qed
qed simp_all

text \<open>
  Claim C10. In lenient mode a tabular row whose token count differs from the number of
  header fields is accepted: the row is appended and the loop goes on with the next
  line. Its object holds exactly the first \<open>k\<close> header fields, \<open>k\<close> the number of
  tokens, and it is the object of the row cut to the number of fields: surplus tokens are
  not read.
\<close>

theorem lenient_row_width:
  assumes "\<not> strict (pcfg p)" and "pos < length (lines p)" and "\<not> lblank (lines p ! pos)"
    and "lindent (lines p ! pos) = depth + 1"
    and "indexOutsideQuotes (TrimSpace (lcontent (lines p ! pos))) CHR '':'' = None"
    and "SplitInlineValues (TrimSpace (lcontent (lines p ! pos))) (rune (hdelimiter header)) = Inr raw"
    and "decodeRow fl (hfields header) raw Map.empty = Inr row"
  shows "parseTabularRows fl p header depth pos rows
           = parseTabularRows fl p header depth (pos + 1) (rows @ [DMap row])
    \<and> dom row = set (take (length raw) (hfields header))
    \<and> decodeRow fl (hfields header) (take (length (hfields header)) raw) Map.empty = Inr row"
proof -
  have "parseTabularRows fl p header depth pos rows
           = parseTabularRows fl p header depth (pos + 1) (rows @ [DMap row])"
    using assms by (subst parseTabularRows.simps) (simp add: current_def)
  moreover have "dom row = set (take (length raw) (hfields header))"
    using decodeRow_dom[OF assms(7)] by simp
  moreover have "decodeRow fl (hfields header) (take (length (hfields header)) raw) Map.empty = Inr row"
    using assms(7) by (simp add: decodeRow_surplus)
  ultimately show ?thesis by simp
qed


theorem lenient_row_width_witness:
  "parseTabularRows integerFloat64
      \<lparr>lines = [\<lparr>lnumber = 1, lindent = 0, lcontent = ''t[2]{a,b,c}:'', lraw = ''t[2]{a,b,c}:'', lblank = False\<rparr>,
                \<lparr>lnumber = 2, lindent = 1, lcontent = ''1,2'', lraw = ''  1,2'', lblank = False\<rparr>,
                \<lparr>lnumber = 3, lindent = 1, lcontent = ''1,2,3,4'', lraw = ''  1,2,3,4'', lblank = False\<rparr>],
       pcfg = WithStrictMode False defaultDecoderOptions\<rparr>
      \<lparr>hkey = ''t'', hlength = 2, hdelimiter = DelimiterComma, hfields = [''a'', ''b'', ''c''],
       hinlineValues = []\<rparr> 0 1 []
     = Inr ([DMap [''a'' \<mapsto> DFloat 1, ''b'' \<mapsto> DFloat 2],
             DMap [''a'' \<mapsto> DFloat 1, ''b'' \<mapsto> DFloat 2, ''c'' \<mapsto> DFloat 3]], 3)
   \<and> dom [''a'' \<mapsto> DFloat (1::int), ''b'' \<mapsto> DFloat 2] = {''a'', ''b''}
   \<and> decodeRow integerFloat64 [''a'', ''b'', ''c''] [''1'', ''2'', ''3''] Map.empty
     = Inr [''a'' \<mapsto> DFloat 1, ''b'' \<mapsto> DFloat 2, ''c'' \<mapsto> DFloat 3]"
proof -
  let ?p = "\<lparr>lines = [\<lparr>lnumber = 1, lindent = 0, lcontent = ''t[2]{a,b,c}:'', lraw = ''t[2]{a,b,c}:'', lblank = False\<rparr>,
                \<lparr>lnumber = 2, lindent = 1, lcontent = ''1,2'', lraw = ''  1,2'', lblank = False\<rparr>,
                \<lparr>lnumber = 3, lindent = 1, lcontent = ''1,2,3,4'', lraw = ''  1,2,3,4'', lblank = False\<rparr>],
       pcfg = WithStrictMode False defaultDecoderOptions\<rparr>"
  let ?h = "\<lparr>hkey = ''t'', hlength = 2, hdelimiter = DelimiterComma, hfields = [''a'', ''b'', ''c''],
       hinlineValues = []\<rparr>"
  let ?r1 = "[''a'' \<mapsto> DFloat (1::int), ''b'' \<mapsto> DFloat 2]"
  let ?r2 = "[''a'' \<mapsto> DFloat (1::int), ''b'' \<mapsto> DFloat 2, ''c'' \<mapsto> DFloat 3]"
  have lenient: "\<not> strict (pcfg ?p)" by (simp add: WithStrictMode_def)
  have s1: "SplitInlineValues (TrimSpace (lcontent (lines ?p ! 1))) (rune (hdelimiter ?h)) = Inr [''1'', ''2'']"
    by (simp add: decoder_defs string_defs)
  have s2: "SplitInlineValues (TrimSpace (lcontent (lines ?p ! (1 + 1)))) (rune (hdelimiter ?h))
              = Inr [''1'', ''2'', ''3'', ''4'']"
    by (simp add: decoder_defs string_defs)
  have d1: "decodeRow integerFloat64 (hfields ?h) [''1'', ''2''] Map.empty = Inr ?r1"
    by (simp add: decoder_defs string_defs)
  have d2: "decodeRow integerFloat64 (hfields ?h) [''1'', ''2'', ''3'', ''4''] Map.empty = Inr ?r2"
    by (simp add: decoder_defs string_defs)
  have c1: "indexOutsideQuotes (TrimSpace (lcontent (lines ?p ! 1))) CHR '':'' = None"
    by (simp add: decoder_defs string_defs)
  have c2: "indexOutsideQuotes (TrimSpace (lcontent (lines ?p ! (1 + 1)))) CHR '':'' = None"
    by (simp add: decoder_defs string_defs)
  have fin: "parseTabularRows integerFloat64 ?p ?h 0 (1 + 1 + 1) (([] @ [DMap ?r1]) @ [DMap ?r2])
               = Inr (([] @ [DMap ?r1]) @ [DMap ?r2], 1 + 1 + 1)"
    by (subst parseTabularRows.simps) simp
  have w1: "parseTabularRows integerFloat64 ?p ?h 0 1 []
              = parseTabularRows integerFloat64 ?p ?h 0 (1 + 1) ([] @ [DMap ?r1])
            \<and> dom ?r1 = set (take (length [''1'', ''2'']) (hfields ?h))
            \<and> decodeRow integerFloat64 (hfields ?h) (take (length (hfields ?h)) [''1'', ''2'']) Map.empty = Inr ?r1"
    by (rule lenient_row_width[OF lenient _ _ _ c1 s1 d1]) simp_all
  have w2: "parseTabularRows integerFloat64 ?p ?h 0 (1 + 1) ([] @ [DMap ?r1])
              = parseTabularRows integerFloat64 ?p ?h 0 (1 + 1 + 1) (([] @ [DMap ?r1]) @ [DMap ?r2])
            \<and> dom ?r2 = set (take (length [''1'', ''2'', ''3'', ''4'']) (hfields ?h))
            \<and> decodeRow integerFloat64 (hfields ?h) (take (length (hfields ?h)) [''1'', ''2'', ''3'', ''4''])
                  Map.empty = Inr ?r2"
    by (rule lenient_row_width[OF lenient _ _ _ c2 s2 d2]) simp_all
  have chain: "parseTabularRows integerFloat64 ?p ?h 0 1 []
                 = Inr (([] @ [DMap ?r1]) @ [DMap ?r2], 1 + 1 + 1)"
    by (rule trans[OF conjunct1[OF w1] trans[OF conjunct1[OF w2] fin]])
  have doms: "dom ?r1 = {''a'', ''b''}" by auto
  have row: "decodeRow integerFloat64 [''a'', ''b'', ''c''] [''1'', ''2'', ''3''] Map.empty = Inr ?r2"
    using conjunct2[OF conjunct2[OF w2]] by simp
  from chain doms row show ?thesis by simp
qed


subsection \<open>Array headers and their keys\<close>

lemma parseBracketSegment_loop_digits:
  "parseBracketSegment_loop s ds d = Inr (ds', d') \<Longrightarrow> ds' = ds @ filter isDigit s"
  by (induction s arbitrary: ds d) (fastforce split: if_splits)+

lemma parseBracketSegment_no_digits:
  assumes "\<forall>c \<in> set seg. \<not> isDigit c"
  shows "\<exists>err. parseBracketSegment seg = Inl err"
proof -
  define seg' where "seg' = (if HasPrefix seg ''#'' then drop 1 seg else seg)"
  have nd: "filter isDigit seg' = []"
    using assms by (auto simp: seg'_def filter_empty_conv dest: in_set_dropD)
  show ?thesis
  proof (cases "parseBracketSegment_loop seg' [] DelimiterComma")
    case (Inl err)
    then show ?thesis by (simp add: parseBracketSegment_def seg'_def[symmetric])
  next
    case (Inr r)
    obtain ds dl where r: "r = (ds, dl)" by (cases r)
    from parseBracketSegment_loop_digits[OF Inr[unfolded r]] nd have "ds = []" by simp
    with Inr r show ?thesis by (simp add: parseBracketSegment_def seg'_def[symmetric])
  qed
qed

text \<open>
  Claim C5, as amended. A header with no closing bracket is the error
  \<open>MissingClosingBracket\<close>, and one whose bracket segment has no digit is an error too.
  An empty key left of the bracket is no error of \<open>tryParseHeader\<close>: the unkeyed
  header is rejected where an object field is expected (\<open>parseObject\<close>), is parsed as the
  root array when it is the first line at indent 0, and is parsed as an inner array
  when it follows the dash of a list item. The counterexample decodes \<open>[2]: a,b\<close>.
\<close>

theorem header_key_rules:
  "(indexOutsideQuotes cont CHR '':'' = Some colon
      \<and> TrimSpace (take colon cont) \<noteq> []
      \<and> indexOutsideQuotes (TrimSpace (take colon cont)) CHR ''['' = Some bs
      \<and> indexOutsideQuotes (drop (bs + 1) (TrimSpace (take colon cont))) CHR '']'' = None
     \<longrightarrow> tryParseHeader cont = Inl MissingClosingBracket)
   \<and> (indexOutsideQuotes cont CHR '':'' = Some colon
      \<and> TrimSpace (take colon cont) \<noteq> []
      \<and> indexOutsideQuotes (TrimSpace (take colon cont)) CHR ''['' = Some bs
      \<and> indexOutsideQuotes (drop (bs + 1) (TrimSpace (take colon cont))) CHR '']'' = Some bo
      \<and> (\<forall>c \<in> set (take bo (drop (bs + 1) (TrimSpace (take colon cont)))). \<not> isDigit c)
     \<longrightarrow> (\<exists>err. tryParseHeader cont = Inl err))
   \<and> (pos < length (lines p) \<and> \<not> lblank (lines p ! pos) \<and> lindent (lines p ! pos) = depth
      \<and> tryParseHeader (lcontent (lines p ! pos)) = Inr (Some h) \<and> hkey h = []
     \<longrightarrow> parseObject_loop fl p pos depth result = Inl (errorAt (lnumber (lines p ! pos)) ArraysNeedKey))
   \<and> (skipBlankLinesOutsideArrays p 0 = pos \<and> pos < length (lines p) \<and> lindent (lines p ! pos) = 0
      \<and> tryParseHeader (lcontent (lines p ! pos)) = Inr (Some h) \<and> hkey h = []
     \<longrightarrow> parseDocument fl p
          = (case parseArray fl p (pos + 1) h 0 of Inl err \<Rightarrow> Inl err | Inr (v, pos') \<Rightarrow> Inr v))
   \<and> (pos < length (lines p) \<and> \<not> lblank (lines p ! pos) \<and> lindent (lines p ! pos) = depth + 1
      \<and> HasPrefix (lcontent (lines p ! pos)) ''-''
      \<and> HasPrefix (TrimSpace (drop 1 (lcontent (lines p ! pos)))) ''[''
      \<and> tryParseHeader (TrimSpace (drop 1 (lcontent (lines p ! pos)))) = Inr (Some h)
     \<longrightarrow> parseListItems fl p pos header depth vals
          = (case parseArray fl p (pos + 1) h (depth + 1) of
               Inl err \<Rightarrow> Inl err
             | Inr (v, pos') \<Rightarrow> parseListItems fl p pos' header depth (vals @ [v])))"
proof (intro conjI impI)
  assume "indexOutsideQuotes cont CHR '':'' = Some colon
      \<and> TrimSpace (take colon cont) \<noteq> []
      \<and> indexOutsideQuotes (TrimSpace (take colon cont)) CHR ''['' = Some bs
      \<and> indexOutsideQuotes (drop (bs + 1) (TrimSpace (take colon cont))) CHR '']'' = None"
  then show "tryParseHeader cont = Inl MissingClosingBracket"
    by (simp add: tryParseHeader_def)
next
  assume a: "indexOutsideQuotes cont CHR '':'' = Some colon
      \<and> TrimSpace (take colon cont) \<noteq> []
      \<and> indexOutsideQuotes (TrimSpace (take colon cont)) CHR ''['' = Some bs
      \<and> indexOutsideQuotes (drop (bs + 1) (TrimSpace (take colon cont))) CHR '']'' = Some bo
      \<and> (\<forall>c \<in> set (take bo (drop (bs + 1) (TrimSpace (take colon cont)))). \<not> isDigit c)"
  then obtain err where
    "parseBracketSegment (take bo (drop (bs + 1) (TrimSpace (take colon cont)))) = Inl err"
    using parseBracketSegment_no_digits by blast
  with a show "\<exists>err. tryParseHeader cont = Inl err"
    by (auto simp: tryParseHeader_def Let_def split: sum.splits)
next
  assume "pos < length (lines p) \<and> \<not> lblank (lines p ! pos) \<and> lindent (lines p ! pos) = depth
      \<and> tryParseHeader (lcontent (lines p ! pos)) = Inr (Some h) \<and> hkey h = []"
  then show "parseObject_loop fl p pos depth result = Inl (errorAt (lnumber (lines p ! pos)) ArraysNeedKey)"
    by (subst parseObject_loop.simps) (simp add: current_def)
next
  assume a: "skipBlankLinesOutsideArrays p 0 = pos \<and> pos < length (lines p) \<and> lindent (lines p ! pos) = 0
      \<and> tryParseHeader (lcontent (lines p ! pos)) = Inr (Some h) \<and> hkey h = []"
  then show "parseDocument fl p
          = (case parseArray fl p (pos + 1) h 0 of Inl err \<Rightarrow> Inl err | Inr (v, pos') \<Rightarrow> Inr v)"
    by (simp add: parseDocument_def current_def Let_def)
next
  assume "pos < length (lines p) \<and> \<not> lblank (lines p ! pos) \<and> lindent (lines p ! pos) = depth + 1
      \<and> HasPrefix (lcontent (lines p ! pos)) ''-''
      \<and> HasPrefix (TrimSpace (drop 1 (lcontent (lines p ! pos)))) ''[''
      \<and> tryParseHeader (TrimSpace (drop 1 (lcontent (lines p ! pos)))) = Inr (Some h)"
  moreover from this have "TrimSpace (drop 1 (lcontent (lines p ! pos))) \<noteq> []"
    by (auto simp: HasPrefix_def)
  ultimately show "parseListItems fl p pos header depth vals
          = (case parseArray fl p (pos + 1) h (depth + 1) of
               Inl err \<Rightarrow> Inl err
             | Inr (v, pos') \<Rightarrow> parseListItems fl p pos' header depth (vals @ [v]))"
    by (subst parseListItems.simps) (simp add: current_def)
qed

theorem header_key_rules_witness:
  "tryParseHeader ''items[2: 1'' = Inl MissingClosingBracket
   \<and> (\<exists>err. tryParseHeader ''items[]: 1'' = Inl err)
   \<and> parseObject_loop integerFloat64
        \<lparr>lines = [\<lparr>lnumber = 1, lindent = 0, lcontent = ''k: 1'', lraw = ''k: 1'', lblank = False\<rparr>,
                  \<lparr>lnumber = 2, lindent = 0, lcontent = ''[2]: a,b'', lraw = ''[2]: a,b'', lblank = False\<rparr>],
         pcfg = defaultDecoderOptions\<rparr> 1 0 [''k'' \<mapsto> DFloat 1]
       = Inl (parseError 2 ArraysNeedKey)
   \<and> parseDocument integerFloat64
        \<lparr>lines = [\<lparr>lnumber = 1, lindent = 0, lcontent = ''[2]: a,b'', lraw = ''[2]: a,b'', lblank = False\<rparr>],
         pcfg = defaultDecoderOptions\<rparr>
       = Inr (DSlice [DString ''a'', DString ''b''])
   \<and> parseListItems integerFloat64
        \<lparr>lines = [\<lparr>lnumber = 1, lindent = 0, lcontent = ''items[1]:'', lraw = ''items[1]:'', lblank = False\<rparr>,
                  \<lparr>lnumber = 2, lindent = 1, lcontent = ''- [2]: a,b'', lraw = ''  - [2]: a,b'',
                   lblank = False\<rparr>],
         pcfg = defaultDecoderOptions\<rparr> 1
        \<lparr>hkey = ''items'', hlength = 1, hdelimiter = DelimiterComma, hfields = [], hinlineValues = []\<rparr> 0 []
       = Inr ([DSlice [DString ''a'', DString ''b'']], 2)"
proof -
  let ?h = "\<lparr>hkey = [], hlength = 2, hdelimiter = DelimiterComma, hfields = [], hinlineValues = ''a,b''\<rparr>"
  let ?pO = "\<lparr>lines = [\<lparr>lnumber = 1, lindent = 0, lcontent = ''k: 1'', lraw = ''k: 1'', lblank = False\<rparr>,
                  \<lparr>lnumber = 2, lindent = 0, lcontent = ''[2]: a,b'', lraw = ''[2]: a,b'', lblank = False\<rparr>],
         pcfg = defaultDecoderOptions\<rparr>"
  let ?pR = "\<lparr>lines = [\<lparr>lnumber = 1, lindent = 0, lcontent = ''[2]: a,b'', lraw = ''[2]: a,b'', lblank = False\<rparr>],
         pcfg = defaultDecoderOptions\<rparr>"
  let ?pL = "\<lparr>lines = [\<lparr>lnumber = 1, lindent = 0, lcontent = ''items[1]:'', lraw = ''items[1]:'', lblank = False\<rparr>,
                  \<lparr>lnumber = 2, lindent = 1, lcontent = ''- [2]: a,b'', lraw = ''  - [2]: a,b'',
                   lblank = False\<rparr>],
         pcfg = defaultDecoderOptions\<rparr>"
  let ?items = "\<lparr>hkey = ''items'', hlength = 1, hdelimiter = DelimiterComma, hfields = [],
                 hinlineValues = []\<rparr>"
  have hdr: "tryParseHeader ''[2]: a,b'' = Inr (Some ?h)"
    by (simp add: decoder_defs string_defs)
  have a: "tryParseHeader ''items[2: 1'' = Inl MissingClosingBracket"
    using header_key_rules[where cont = "''items[2: 1''" and colon = 7 and bs = 5]
    by (simp add: decoder_defs string_defs)
  have b: "\<exists>err. tryParseHeader ''items[]: 1'' = Inl err"
    using header_key_rules[where cont = "''items[]: 1''" and colon = 7 and bs = 5 and bo = 0]
    by (simp add: decoder_defs string_defs)
  have c: "parseObject_loop integerFloat64 ?pO 1 0 [''k'' \<mapsto> DFloat 1] = Inl (parseError 2 ArraysNeedKey)"
    using header_key_rules[where p = ?pO and pos = 1 and depth = 0 and h = ?h and fl = integerFloat64
        and result = "[''k'' \<mapsto> DFloat 1]"] hdr
    by (simp add: errorAt_def)
  have skip: "skipBlankLinesOutsideArrays ?pR 0 = 0"
    by (simp add: skipBlankLinesOutsideArrays.simps)
  have arr: "parseArray integerFloat64 ?pR (0 + 1) ?h 0 = Inr (DSlice [DString ''a'', DString ''b''], 0 + 1)"
    by (simp add: decoder_defs string_defs)
  have d: "parseDocument integerFloat64 ?pR = Inr (DSlice [DString ''a'', DString ''b''])"
    using header_key_rules[where p = ?pR and pos = 0 and h = ?h and fl = integerFloat64] hdr skip arr
    by simp
  have item: "TrimSpace (drop 1 (lcontent (lines ?pL ! 1))) = ''[2]: a,b''"
    by (simp add: string_defs)
  have arr2: "parseArray integerFloat64 ?pL (1 + 1) ?h (0 + 1) = Inr (DSlice [DString ''a'', DString ''b''], 1 + 1)"
    by (simp add: decoder_defs string_defs)
  have rest: "parseListItems integerFloat64 ?pL (1 + 1) ?items 0 ([] @ [DSlice [DString ''a'', DString ''b'']])
                = Inr ([DSlice [DString ''a'', DString ''b'']], 2)"
    by (subst parseListItems.simps) simp
  have e: "parseListItems integerFloat64 ?pL 1 ?items 0 [] = Inr ([DSlice [DString ''a'', DString ''b'']], 2)"
    using header_key_rules[where p = ?pL and pos = 1 and depth = 0 and h = ?h and fl = integerFloat64
        and header = ?items and vals = "[]"] hdr item arr2 rest
    by (simp add: HasPrefix_def)
  from a b c d e show ?thesis by blast
qed

theorem unkeyed_header_counterexample:
  "tryParseHeader ''[2]: a,b''
     = Inr (Some \<lparr>hkey = [], hlength = 2, hdelimiter = DelimiterComma, hfields = [],
                 hinlineValues = ''a,b''\<rparr>)
   \<and> Decode integerFloat64 defaultDecoderOptions ''[2]: a,b''
     = Inr (DSlice [DString ''a'', DString ''b''])"
  by (simp add: decoder_defs string_defs)


subsection \<open>Object list items whose first field is a nested object\<close>

text \<open>
  Claim C4, on the code. For a list item \<open>- key:\<close> with an empty value side the parser
  builds the object whose first field is the object parsed at depth \<open>d + 3\<close> and goes
  on with the next item: it does not collect the sibling lines at indent \<open>d + 2\<close>, so
  a sibling line is an indentation error of the list. After a primitive first field the
  siblings are collected, and \<open>collectObjectListSiblings\<close> itself reads a nested object
  and goes on collecting.
\<close>

theorem list_item_nested_first_field:
  "Decode integerFloat64 defaultDecoderOptions
     (''items[1]:'' @ [LF] @ ''  - a:'' @ [LF] @ ''      b: 1'' @ [LF] @ ''    c: 2'')
     = Inl (parseError 4 InvalidIndentListItem)
   \<and> Decode integerFloat64 defaultDecoderOptions
     (''items[1]:'' @ [LF] @ ''  - a: 1'' @ [LF] @ ''    c: 2'')
     = Inr (DMap [''items'' \<mapsto> DSlice [DMap [''a'' \<mapsto> DFloat 1, ''c'' \<mapsto> DFloat 2]]])
   \<and> Decode integerFloat64 defaultDecoderOptions
     (''items[1]:'' @ [LF] @ ''  - a:'' @ [LF] @ ''      b: 1'')
     = Inr (DMap [''items'' \<mapsto> DSlice [DMap [''a'' \<mapsto> DMap [''b'' \<mapsto> DFloat 1]]]])"
  by (simp add: decoder_defs string_defs)

subsection \<open>Decoding an encoded value\<close>

text \<open>
  Claim C1, on the code. Decoding does not invert encoding on every value of the data
  model. An empty object inside a sequence is written \<open>- {}\<close> and read back as the
  string \<open>{}\<close>; a list item whose first field is an object is written as a bare dash
  followed by the object one level deeper, and the decoder reads the bare dash as an empty
  object and rejects the next line.
\<close>

theorem round_trip_failing_inputs:
  "Marshal integerFloat64 (defaultEncoderOptions (\<lambda>t::unit. ''time'')) (HSlice [HObject []])
     = Inr (''[1]:'' @ [LF] @ ''  - {}'')
   \<and> Decode integerFloat64 defaultDecoderOptions (''[1]:'' @ [LF] @ ''  - {}'')
     = Inr (DSlice [DString ''{}''])
   \<and> Marshal integerFloat64 (defaultEncoderOptions (\<lambda>t::unit. ''time''))
       (HSlice [HObject [(''a'', HObject [(''b'', HInt 1)])]])
     = Inr (''[1]:'' @ [LF] @ ''  -'' @ [LF] @ ''    a:'' @ [LF] @ ''      b: 1'')
   \<and> Decode integerFloat64 defaultDecoderOptions
       (''[1]:'' @ [LF] @ ''  -'' @ [LF] @ ''    a:'' @ [LF] @ ''      b: 1'')
     = Inl (parseError 3 InvalidIndentListItem)"
  by (simp add: encoder_defs decoder_defs string_defs)

subsection \<open>Pre-formatted numeric strings\<close>

text \<open>
  The claim C2 fails at \<open>-0\<close>: the string parses as a zero, which is rendered \<open>0\<close>,
  and the result is the number literal \<open>0\<close> although the rendering differs from the
  digits of the string. It fails in the same way at \<open>007\<close>, which becomes the number
  literal \<open>7\<close>.
\<close>

theorem number_string_counterexample:
  "normalizeNumberString integerFloat64 ''-0'' = Inr (numberValue ''0'')
   \<and> FormatFloat integerFloat64 0 \<noteq> ''-0''
   \<and> normalizeNumberString integerFloat64 ''007'' = Inr (numberValue ''7'')
   \<and> ParseFloat integerFloat64 ''007'' = Some 7
   \<and> FormatFloat integerFloat64 7 \<noteq> ''007''"
  by (simp add: encoder_defs string_defs)

text \<open>
  Claim C2, as amended. A string that does not parse as a double is kept as a string; one
  that parses as an infinity or a NaN becomes nil; one that parses as a finite double whose
  rendering, zero folded, is the string itself becomes that number literal; a zero of
  either sign becomes the rendering of \<open>0\<close>. A number literal is produced only for a
  string that parses as a finite double, and a string result is the input itself.
\<close>

theorem number_string_rules:
  "(ParseFloat fl s = None \<longrightarrow> normalizeNumberString fl s = Inr (String s))
   \<and> (\<forall>f. ParseFloat fl s = Some f \<and> (IsInf fl f \<or> IsNaN fl f)
        \<longrightarrow> normalizeNumberString fl s = Inr Null)
   \<and> (\<forall>f. ParseFloat fl s = Some f \<and> \<not> IsInf fl f \<and> \<not> IsNaN fl f
          \<and> FormatFloat fl (if isZero fl f then zero fl else f) = s
        \<longrightarrow> normalizeNumberString fl s = Inr (numberValue s))
   \<and> (\<forall>f. ParseFloat fl s = Some f \<and> \<not> IsInf fl f \<and> \<not> IsNaN fl f \<and> isZero fl f
        \<longrightarrow> normalizeNumberString fl s = Inr (numberValue (FormatFloat fl (zero fl))))
   \<and> (\<forall>lit. normalizeNumberString fl s = Inr (numberValue lit)
        \<longrightarrow> (\<exists>f. ParseFloat fl s = Some f \<and> \<not> IsInf fl f \<and> \<not> IsNaN fl f))
   \<and> (\<forall>t. normalizeNumberString fl s = Inr (String t) \<longrightarrow> t = s \<and> ParseFloat fl s = None)
   \<and> normalize fl cfg (HJsonNumber s) = normalizeNumberString fl s"
  by (auto simp: normalizeNumberString_def split: option.splits if_splits)

theorem number_string_rules_witness:
  "normalizeNumberString integerFloat64 ''1.5e'' = Inr (String ''1.5e'')
   \<and> normalizeNumberString integerFloat64 ''9007199254740991'' = Inr (numberValue ''9007199254740991'')
   \<and> normalizeNumberString integerFloat64 ''-0'' = Inr (numberValue ''0'')
   \<and> normalize integerFloat64 (defaultEncoderOptions (\<lambda>t::unit. ''time'')) (HJsonNumber ''42'')
     = Inr (numberValue ''42'')"
proof -
  have p1: "ParseFloat integerFloat64 ''1.5e'' = None"
    by (simp add: encoder_defs string_defs)
  have p2: "ParseFloat integerFloat64 ''9007199254740991'' = Some 9007199254740991"
    by (simp add: encoder_defs string_defs)
  have f2: "FormatFloat integerFloat64 9007199254740991 = ''9007199254740991''"
    by (simp add: encoder_defs string_defs)
  have p3: "ParseFloat integerFloat64 ''-0'' = Some 0"
    by (simp add: encoder_defs string_defs)
  have f3: "FormatFloat integerFloat64 0 = ''0''"
    by (simp add: encoder_defs string_defs)
  have p4: "ParseFloat integerFloat64 ''42'' = Some 42"
    by (simp add: encoder_defs string_defs)
  have f4: "FormatFloat integerFloat64 42 = ''42''"
    by (simp add: encoder_defs string_defs)
  have n: "\<not> IsInf integerFloat64 x" "\<not> IsNaN integerFloat64 x" "isZero integerFloat64 x = (x = 0)"
    "zero integerFloat64 = 0" for x
    by (simp_all add: integerFloat64_def)
  have a: "normalizeNumberString integerFloat64 ''1.5e'' = Inr (String ''1.5e'')"
    using number_string_rules[of integerFloat64 "''1.5e''"] p1 by simp
  have b: "normalizeNumberString integerFloat64 ''9007199254740991'' = Inr (numberValue ''9007199254740991'')"
    using number_string_rules[of integerFloat64 "''9007199254740991''"] p2 f2 n by simp
  have c: "normalizeNumberString integerFloat64 ''-0'' = Inr (numberValue ''0'')"
    using number_string_rules[of integerFloat64 "''-0''"] p3 f3 n by simp
  have d: "normalize integerFloat64 (defaultEncoderOptions (\<lambda>t::unit. ''time'')) (HJsonNumber ''42'')
     = Inr (numberValue ''42'')"
    using number_string_rules[of integerFloat64 "''42''" "defaultEncoderOptions (\<lambda>t::unit. ''time'')"]
      p4 f4 n by simp
  from a b c d show ?thesis by simp
qed

text \<open>
  The parsed double is rendered without a comparison with the digits of the string: an
  integer beyond the safe range loses its last digit where \<open>normalizeInt\<close> keeps it as a
  string.
\<close>

theorem large_number_string:
  "normalizeNumberString integerFloat64 ''9007199254740993'' = Inr (numberValue ''9007199254740992'')"
  by (simp add: encoder_defs string_defs)

subsection \<open>Rows of a tabular array\<close>

text \<open>
  An array is detected as tabular from its first element, whose keys are the header, and
  \<open>encodeRows\<close> writes each row by looking the keys of the header up in the row.
\<close>

lemma andThen_Inr:
  "andThen a b = Inr ls \<longleftrightarrow> (\<exists>x y. a = Inr x \<and> b = Inr y \<and> ls = x @ y)"
  by (auto simp: andThen_def split: sum.splits)

lemma detectTabular_Some:
  "detectTabular vs = Some flds \<longleftrightarrow>
   (\<exists>first others. vs = Object first # others \<and> first \<noteq> [] \<and> flds = map Key first
      \<and> (\<forall>field \<in> set first. isPrimitive (Value field))
      \<and> (\<forall>v \<in> set others. tabularRow flds v))"
  by (auto simp: detectTabular_def split: list.splits normalizedValue.splits)

lemma tabularRow_Object:
  "tabularRow flds (Object obj) \<longleftrightarrow>
   length obj = length flds
   \<and> (\<forall>field \<in> set obj. Key field \<in> set flds \<and> isPrimitive (Value field))
   \<and> card (Key ` set obj) = length flds"
  by (simp add: tabularRow_def length_remdups_card_conv)

lemma tabularRow_length: "tabularRow flds v \<Longrightarrow> \<exists>obj. v = Object obj \<and> length obj = length flds"
  by (auto simp: tabularRow_def split: normalizedValue.splits)

lemma detectTabular_not_primitive: "detectTabular vs = Some flds \<Longrightarrow> \<not> isPrimitiveArray vs"
  by (auto simp: detectTabular_Some isPrimitiveArray_def)

lemma encodeArray_tabular:
  assumes "detectTabular vs = Some flds"
  shows "encodeArray cfg key vs depth root =
    (case (if key \<noteq> [] then encodeKey key else Inr []) of
       Inl err \<Rightarrow> Inl err
     | Inr keyLiteral \<Rightarrow>
         andThen
           (Inr [indent cfg depth
                 @ renderHeader keyLiteral (length vs) (arrayDelimiter cfg) (includeLengthMarks cfg) flds])
           (encodeRows cfg vs flds depth
              \<lparr>active = arrayDelimiter cfg, document = documentDelimiter cfg, inArray = True\<rparr>))"
  using assms detectTabular_not_primitive[OF assms]
  by (simp add: encodeArray.simps Let_def split: sum.splits)

lemma formatRow_tokens:
  "formatRow obj flds ctx = Inr toks \<Longrightarrow>
   list_all2 (\<lambda>key token. formatPrimitive (objField obj key) ctx = Inr token) flds toks"
proof (induction flds arbitrary: toks)
  case Nil
  then show ?case by simp
next
  case (Cons field flds)
  from Cons.prems obtain token where t: "formatPrimitive (objField obj field) ctx = Inr token"
    by (cases "formatPrimitive (objField obj field) ctx") simp_all
  with Cons.prems obtain rowValues where r: "formatRow obj flds ctx = Inr rowValues"
    and toks: "toks = token # rowValues"
    by (cases "formatRow obj flds ctx") simp_all
  from Cons.IH[OF r] t toks show ?case by simp
qed

lemma encodeRows_lines:
  "encodeRows cfg rows flds depth ctx = Inr ls \<Longrightarrow>
   list_all2
     (\<lambda>row line. \<exists>obj toks. row = Object obj
        \<and> list_all2 (\<lambda>key token. formatPrimitive (objField obj key) ctx = Inr token) flds toks
        \<and> line = indent cfg (depth + 1) @ Join toks [rune (active ctx)])
     rows ls"
proof (induction rows arbitrary: ls)
  case Nil
  then show ?case by simp
next
  case (Cons row rows)
  from Cons.prems obtain obj where obj: "row = Object obj"
    by (cases row) simp_all
  with Cons.prems obtain toks where toks: "formatRow obj flds ctx = Inr toks"
    by (cases "formatRow obj flds ctx") simp_all
  with Cons.prems obj obtain rest where rest: "encodeRows cfg rows flds depth ctx = Inr rest"
    and ls: "ls = (indent cfg (depth + 1) @ Join toks [rune (active ctx)]) # rest"
    by (auto simp: andThen_Inr)
  from Cons.IH[OF rest] formatRow_tokens[OF toks] obj ls show ?case by auto
qed

subsection \<open>Tabular detection under a change of one element\<close>

lemma detectTabular_width_change:
  assumes tab: "detectTabular vs = Some flds" and i: "i < length vs" and at: "vs ! i = Object obj"
    and two: "2 \<le> length vs" and len: "length obj' \<noteq> length obj"
  shows "detectTabular (vs[i := Object obj']) = None"
proof -
  from tab obtain first others where vs: "vs = Object first # others" and flds: "flds = map Key first"
    and rows: "\<forall>v \<in> set others. tabularRow flds v"
    by (auto simp: detectTabular_Some)
  from two vs obtain w ws where others: "others = w # ws"
    by (cases others) auto
  show ?thesis
  proof (cases i)
    case 0
    with at vs have "obj = first" by simp
    moreover from rows others obtain o' where "w = Object o'" "length o' = length flds"
      using tabularRow_length[of flds w] by auto
    ultimately have "\<not> tabularRow (map Key obj') w"
      using len flds by (simp add: tabularRow_Object)
    with 0 vs others show ?thesis
      by (simp add: detectTabular_def)
  next
    case (Suc j)
    with i vs have j: "j < length others" by simp
    with at vs Suc rows have "tabularRow flds (Object obj)"
      by (auto simp: all_set_conv_all_nth)
    hence "length obj = length flds" by (simp add: tabularRow_Object)
    with len have "\<not> tabularRow flds (Object obj')" by (simp add: tabularRow_Object)
    moreover have "Object obj' \<in> set (others[j := Object obj'])"
      using j by (rule set_update_memI)
    ultimately have "\<not> (\<forall>v \<in> set (others[j := Object obj']). tabularRow flds v)" by blast
    with Suc vs flds show ?thesis
      by (simp add: detectTabular_def)
  qed
qed

lemma detectTabular_reorder:
  assumes tab: "detectTabular vs = Some flds" and i: "i < length vs" and at: "vs ! i = Object obj"
    and perm: "mset obj' = mset obj"
  shows "detectTabular (vs[i := Object obj']) = Some (if i = 0 then map Key obj' else flds)"
proof -
  from tab obtain first others where vs: "vs = Object first # others" and flds: "flds = map Key first"
    and ne: "first \<noteq> []" and prim: "\<forall>field \<in> set first. isPrimitive (Value field)"
    and rows: "\<forall>v \<in> set others. tabularRow flds v"
    by (auto simp: detectTabular_Some)
  from perm have set_eq: "set obj' = set obj" by (rule mset_eq_setD)
  from perm have len_eq: "length obj' = length obj" by (rule mset_eq_length)
  show ?thesis
  proof (cases i)
    case 0
    with at vs have obj: "obj = first" by simp
    have "tabularRow (map Key obj') v" if "v \<in> set others" for v
    proof -
      from that rows have "tabularRow flds v" by blast
      then show ?thesis
        using flds obj set_eq len_eq
        by (cases v) (auto simp: tabularRow_Object tabularRow_def)
    qed
    moreover have "obj' \<noteq> []" using ne obj len_eq by auto
    ultimately show ?thesis
      using 0 vs prim obj set_eq by (simp add: detectTabular_Some)
  next
    case (Suc j)
    with i vs have j: "j < length others" by simp
    with at vs Suc rows have "tabularRow flds (Object obj)"
      by (auto simp: all_set_conv_all_nth)
    hence row': "tabularRow flds (Object obj')"
      using set_eq len_eq by (simp add: tabularRow_Object)
    have "tabularRow flds v" if "v \<in> set (others[j := Object obj'])" for v
      using that rows row' set_update_subset_insert[of others j "Object obj'"] by auto
    with Suc vs flds ne prim show ?thesis
      by (simp add: detectTabular_Some)
  qed
qed

lemma encodeArray_list_layout:
  assumes "detectTabular vs = None" "\<not> isPrimitiveArray vs"
  shows "encodeArray cfg key vs depth root =
    (case (if key \<noteq> [] then encodeKey key else Inr []) of
       Inl err \<Rightarrow> Inl err
     | Inr keyLiteral \<Rightarrow>
         andThen
           (Inr [indent cfg depth
                 @ renderHeader keyLiteral (length vs) (arrayDelimiter cfg) (includeLengthMarks cfg) []])
           (encodeArrayItems cfg vs (depth + 1) root
              \<lparr>active = arrayDelimiter cfg, document = documentDelimiter cfg, inArray = True\<rparr>))"
  using assms by (simp add: encodeArray.simps Let_def split: sum.splits)

lemma update_not_primitive: "i < length vs \<Longrightarrow> \<not> isPrimitiveArray (vs[i := Object obj'])"
  using set_update_memI[of i vs "Object obj'"]
  by (auto simp: isPrimitiveArray_def intro!: bexI[of _ "Object obj'"])

lemma objField_map_of:
  "objField obj key = (case map_of obj key of None \<Rightarrow> Null | Some v \<Rightarrow> v)"
  by (induction obj) auto

lemma objField_reorder:
  assumes "distinct (map Key obj)" "mset obj' = mset obj"
  shows "objField obj' key = objField obj key"
proof -
  from assms(2) have s: "set obj' = set obj" by (rule mset_eq_setD)
  from assms(2) have "mset (map Key obj') = mset (map Key obj)" by simp
  hence "distinct (map Key obj') \<longleftrightarrow> distinct (map Key obj)" by (rule mset_eq_imp_distinct_iff)
  with assms(1) have "distinct (map Key obj')" by simp
  with assms(1) s have "map_of obj' = map_of obj" by (simp add: map_of_inject_set)
  then show ?thesis by (simp add: objField_map_of)
qed

lemma formatRow_reorder:
  "(\<And>key. objField obj' key = objField obj key) \<Longrightarrow> formatRow obj' flds ctx = formatRow obj flds ctx"
  by (induction flds) (simp_all split: sum.splits)

lemma encodeRows_update:
  "i < length vs \<Longrightarrow> vs ! i = Object obj \<Longrightarrow> formatRow obj' flds ctx = formatRow obj flds ctx \<Longrightarrow>
   encodeRows cfg (vs[i := Object obj']) flds depth ctx = encodeRows cfg vs flds depth ctx"
proof (induction vs arbitrary: i)
  case Nil
  then show ?case by simp
next
  case (Cons v vs)
  show ?case
  proof (cases i)
    case 0
    with Cons.prems show ?thesis by simp
  next
    case (Suc j)
    with Cons.prems Cons.IH[of j] show ?thesis
      by (cases v) (simp_all split: sum.splits)
  qed
qed

lemma tabularRow_distinct: "tabularRow flds (Object obj) \<Longrightarrow> distinct (map Key obj)"
proof -
  assume "tabularRow flds (Object obj)"
  hence "length (remdups (map Key obj)) = length (map Key obj)"
    by (simp add: tabularRow_def)
  hence "remdups (map Key obj) = map Key obj" by (simp only: length_remdups_eq)
  then show ?thesis by (metis distinct_remdups)
qed

lemma encodeArray_reorder_row:
  assumes tab: "detectTabular vs = Some flds" and i: "i < length vs" "0 < i"
    and at: "vs ! i = Object obj" and perm: "mset obj' = mset obj"
  shows "encodeArray cfg key (vs[i := Object obj']) depth root = encodeArray cfg key vs depth root"
proof -
  from tab obtain first others where vs: "vs = Object first # others"
    and rows: "\<forall>v \<in> set others. tabularRow flds v"
    by (auto simp: detectTabular_Some)
  from i at vs rows have "tabularRow flds (Object obj)"
    by (cases i) (auto simp: all_set_conv_all_nth)
  hence "distinct (map Key obj)" by (rule tabularRow_distinct)
  hence "objField obj' k = objField obj k" for k using perm by (rule objField_reorder)
  hence row: "formatRow obj' flds ctx = formatRow obj flds ctx" for ctx by (rule formatRow_reorder)
  from detectTabular_reorder[OF tab i(1) at perm] i(2)
  have tab': "detectTabular (vs[i := Object obj']) = Some flds" by simp
  show ?thesis
    by (simp only: encodeArray_tabular[OF tab'] encodeArray_tabular[OF tab]
        encodeRows_update[OF i(1) at row] length_list_update)
qed

text \<open>
  The claim C3 fails for a reordering: the check of \<open>detectTabular\<close> on the elements after
  the first goes through the set of the keys, and \<open>formatRow\<close> looks each value up by its
  key, so an array whose second element has its fields in another order is still written as
  a table. It fails too for an array of one element, which stays tabular when a primitive
  field is added to it.
\<close>

theorem tabular_detection_counterexample:
  "detectTabular [Object [(''a'', numberValue ''1''), (''b'', numberValue ''2'')],
                  Object [(''a'', numberValue ''3''), (''b'', numberValue ''4'')]] = Some [''a'', ''b'']
   \<and> detectTabular [Object [(''a'', numberValue ''1''), (''b'', numberValue ''2'')],
                    Object [(''b'', numberValue ''4''), (''a'', numberValue ''3'')]] = Some [''a'', ''b'']
   \<and> Marshal integerFloat64 (NewEncoder (\<lambda>t::unit. ''time'') [])
        (HSlice [HObject [(''a'', HInt 1), (''b'', HInt 2)], HObject [(''b'', HInt 4), (''a'', HInt 3)]])
      = Inr (''[2]{a,b}:'' @ [LF] @ ''  1,2'' @ [LF] @ ''  3,4'')
   \<and> detectTabular [Object [(''a'', numberValue ''1'')]] = Some [''a'']
   \<and> detectTabular [Object [(''a'', numberValue ''1''), (''b'', numberValue ''2'')]] = Some [''a'', ''b'']"
  by (simp add: encoder_defs string_defs)

text \<open>
  Claim C3, as amended. Let an array be detected as tabular and replace the fields of one
  of its elements. If the array has at least two elements and the number of fields of the
  element changes (a field added or removed), the array is no longer tabular and
  \<open>encodeArray\<close> writes a header without field names followed by the list items. If the
  new fields are a reordering of the old ones, the array is still tabular: the header is
  unchanged, or is the new order of the keys when the element is the first;
  \<open>encodeArray\<close> writes that header followed by the rows, each row is written in the
  order of the header (its tokens are the values found under the keys of the header, one
  after the other), and when the element is not the first the encoding of the array is
  the same as before.
\<close>

theorem tabular_detection_stability:
  "detectTabular vs = Some flds \<and> i < length vs \<and> vs ! i = Object obj \<longrightarrow>
     (2 \<le> length vs \<and> length obj' \<noteq> length obj \<longrightarrow>
        detectTabular (vs[i := Object obj']) = None
        \<and> encodeArray cfg key (vs[i := Object obj']) depth root =
            (case (if key \<noteq> [] then encodeKey key else Inr []) of
               Inl err \<Rightarrow> Inl err
             | Inr keyLiteral \<Rightarrow>
                 andThen
                   (Inr [indent cfg depth
                         @ renderHeader keyLiteral (length vs) (arrayDelimiter cfg) (includeLengthMarks cfg) []])
                   (encodeArrayItems cfg (vs[i := Object obj']) (depth + 1) root
                      \<lparr>active = arrayDelimiter cfg, document = documentDelimiter cfg, inArray = True\<rparr>)))
     \<and> (mset obj' = mset obj \<longrightarrow>
          detectTabular (vs[i := Object obj']) = Some (if i = 0 then map Key obj' else flds)
          \<and> encodeArray cfg key (vs[i := Object obj']) depth root =
              (case (if key \<noteq> [] then encodeKey key else Inr []) of
                 Inl err \<Rightarrow> Inl err
               | Inr keyLiteral \<Rightarrow>
                   andThen
                     (Inr [indent cfg depth
                           @ renderHeader keyLiteral (length vs) (arrayDelimiter cfg) (includeLengthMarks cfg)
                               (if i = 0 then map Key obj' else flds)])
                     (encodeRows cfg (vs[i := Object obj']) (if i = 0 then map Key obj' else flds) depth
                        \<lparr>active = arrayDelimiter cfg, document = documentDelimiter cfg, inArray = True\<rparr>))
          \<and> (\<forall>ls. encodeRows cfg (vs[i := Object obj']) (if i = 0 then map Key obj' else flds) depth ctx
                    = Inr ls \<longrightarrow>
                list_all2
                  (\<lambda>row line. \<exists>ob toks. row = Object ob
                     \<and> list_all2 (\<lambda>key token. formatPrimitive (objField ob key) ctx = Inr token)
                          (if i = 0 then map Key obj' else flds) toks
                     \<and> line = indent cfg (depth + 1) @ Join toks [rune (active ctx)])
                  (vs[i := Object obj']) ls)
          \<and> (0 < i \<longrightarrow>
                encodeArray cfg key (vs[i := Object obj']) depth root = encodeArray cfg key vs depth root))"
proof (intro impI conjI allI; elim conjE)
  assume h: "detectTabular vs = Some flds" "i < length vs" "vs ! i = Object obj"
  {
    assume "2 \<le> length vs" "length obj' \<noteq> length obj"
    with h show none: "detectTabular (vs[i := Object obj']) = None"
      by (rule detectTabular_width_change)
    from encodeArray_list_layout[OF none update_not_primitive[OF h(2)], of cfg key depth root]
    show "encodeArray cfg key (vs[i := Object obj']) depth root =
            (case (if key \<noteq> [] then encodeKey key else Inr []) of
               Inl err \<Rightarrow> Inl err
             | Inr keyLiteral \<Rightarrow>
                 andThen
                   (Inr [indent cfg depth
                         @ renderHeader keyLiteral (length vs) (arrayDelimiter cfg) (includeLengthMarks cfg) []])
                   (encodeArrayItems cfg (vs[i := Object obj']) (depth + 1) root
                      \<lparr>active = arrayDelimiter cfg, document = documentDelimiter cfg, inArray = True\<rparr>))"
      by (simp only: length_list_update)
  }
  {
    assume perm: "mset obj' = mset obj"
    with h show tab': "detectTabular (vs[i := Object obj']) = Some (if i = 0 then map Key obj' else flds)"
      by (rule detectTabular_reorder)
    from encodeArray_tabular[OF tab', of cfg key depth root]
    show "encodeArray cfg key (vs[i := Object obj']) depth root =
              (case (if key \<noteq> [] then encodeKey key else Inr []) of
                 Inl err \<Rightarrow> Inl err
               | Inr keyLiteral \<Rightarrow>
                   andThen
                     (Inr [indent cfg depth
                           @ renderHeader keyLiteral (length vs) (arrayDelimiter cfg) (includeLengthMarks cfg)
                               (if i = 0 then map Key obj' else flds)])
                     (encodeRows cfg (vs[i := Object obj']) (if i = 0 then map Key obj' else flds) depth
                        \<lparr>active = arrayDelimiter cfg, document = documentDelimiter cfg, inArray = True\<rparr>))"
      by (simp only: length_list_update)
    {
      fix ls
      assume "encodeRows cfg (vs[i := Object obj']) (if i = 0 then map Key obj' else flds) depth ctx = Inr ls"
      then show "list_all2
                  (\<lambda>row line. \<exists>ob toks. row = Object ob
                     \<and> list_all2 (\<lambda>key token. formatPrimitive (objField ob key) ctx = Inr token)
                          (if i = 0 then map Key obj' else flds) toks
                     \<and> line = indent cfg (depth + 1) @ Join toks [rune (active ctx)])
                  (vs[i := Object obj']) ls"
        by (rule encodeRows_lines)
    }
    {
      assume "0 < i"
      with h perm show "encodeArray cfg key (vs[i := Object obj']) depth root = encodeArray cfg key vs depth root"
        using encodeArray_reorder_row[of vs flds i obj obj' cfg key depth root] by simp
    }
  }
qed

theorem tabular_detection_stability_witness:
  "detectTabular ([Object [(''a'', numberValue ''1''), (''b'', numberValue ''2'')],
                   Object [(''a'', numberValue ''3''), (''b'', numberValue ''4'')]]
                  [1 := Object [(''a'', numberValue ''3'')]]) = None
   \<and> detectTabular ([Object [(''a'', numberValue ''1''), (''b'', numberValue ''2'')],
                     Object [(''a'', numberValue ''3''), (''b'', numberValue ''4'')]]
                    [0 := Object [(''b'', numberValue ''2''), (''a'', numberValue ''1'')]])
      = Some [''b'', ''a'']
   \<and> encodeArray (defaultEncoderOptions (\<lambda>t::unit. ''time'')) []
        ([Object [(''a'', numberValue ''1''), (''b'', numberValue ''2'')],
          Object [(''a'', numberValue ''3''), (''b'', numberValue ''4'')]]
         [1 := Object [(''b'', numberValue ''4''), (''a'', numberValue ''3'')]]) 0 True
      = encodeArray (defaultEncoderOptions (\<lambda>t::unit. ''time'')) []
          [Object [(''a'', numberValue ''1''), (''b'', numberValue ''2'')],
           Object [(''a'', numberValue ''3''), (''b'', numberValue ''4'')]] 0 True"
proof -
  let ?r1 = "[(''a'', numberValue ''1''), (''b'', numberValue ''2'')]"
  let ?r2 = "[(''a'', numberValue ''3''), (''b'', numberValue ''4'')]"
  let ?vs = "[Object ?r1, Object ?r2]"
  let ?cfg = "defaultEncoderOptions (\<lambda>t::unit. ''time'')"
  let ?ctx = "\<lparr>active = DelimiterComma, document = DelimiterComma, inArray = True\<rparr>"
  have tab: "detectTabular ?vs = Some [''a'', ''b'']"
    by (simp add: detectTabular_def tabularRow_def)
  have perm1: "mset [(''b'', numberValue ''2''), (''a'', numberValue ''1'')] = mset ?r1"
    by simp
  have perm2: "mset [(''b'', numberValue ''4''), (''a'', numberValue ''3'')] = mset ?r2"
    by simp
  have h0: "detectTabular ?vs = Some [''a'', ''b''] \<and> 0 < length ?vs \<and> ?vs ! 0 = Object ?r1"
    using tab by simp
  have h1: "detectTabular ?vs = Some [''a'', ''b''] \<and> 1 < length ?vs \<and> ?vs ! 1 = Object ?r2"
    using tab by simp
  have w: "2 \<le> length ?vs \<and> length [(''a'', numberValue ''3'')] \<noteq> length ?r2"
    by simp
  have pos: "0 < (1::nat)" by simp
  have a: "detectTabular (?vs[1 := Object [(''a'', numberValue ''3'')]]) = None"
    using tabular_detection_stability[of ?vs "[''a'', ''b'']" 1 ?r2 "[(''a'', numberValue ''3'')]"
        ?cfg "[]" 0 True ?ctx] h1 w
    by blast
  have "detectTabular (?vs[0 := Object [(''b'', numberValue ''2''), (''a'', numberValue ''1'')]])
      = Some (if (0::nat) = 0 then map Key [(''b'', numberValue ''2''), (''a'', numberValue ''1'')]
              else [''a'', ''b''])"
    using tabular_detection_stability[of ?vs "[''a'', ''b'']" 0 ?r1
        "[(''b'', numberValue ''2''), (''a'', numberValue ''1'')]" ?cfg "[]" 0 True ?ctx] h0 perm1
    by blast
  hence b: "detectTabular (?vs[0 := Object [(''b'', numberValue ''2''), (''a'', numberValue ''1'')]])
      = Some [''b'', ''a'']"
    by simp
  have c: "encodeArray ?cfg [] (?vs[1 := Object [(''b'', numberValue ''4''), (''a'', numberValue ''3'')]]) 0 True
      = encodeArray ?cfg [] ?vs 0 True"
    using tabular_detection_stability[of ?vs "[''a'', ''b'']" 1 ?r2
        "[(''b'', numberValue ''4''), (''a'', numberValue ''3'')]" ?cfg "[]" 0 True ?ctx] h1 perm2 pos
    by blast
  from a b c show ?thesis by (intro conjI)
qed

subsection \<open>The order of the fields\<close>



























end
